theory Spec2Isabelle
  imports Complex_Main "HOL-Library.Word"
begin

section \<open>JavaScript values\<close>

text \<open>
  Chat messages, tool definitions, JSON Schemas and upstream content parts are plain
  JavaScript objects obtained from \<^verbatim>\<open>JSON.parse\<close>. They are modelled by one datatype
  of values. An object is its list of own properties in insertion order; a property that
  is absent reads as \<open>Undefined\<close>. Strings are byte strings; \<open>trim\<close> strips the ASCII
  white space characters only.
\<close>

datatype jsval =
    Undefined
  | Null
  | Bool bool
  | Num rat
  | Str string
  | Arr "jsval list"
  | Obj "(string \<times> jsval) list"

datatype js_error =
    TypeError
  | SyntaxError
  | RangeError
  | Error string

text \<open>A thrown exception is the left summand; \<open>bindE\<close> sequences two steps.\<close>

definition bindE :: "'e + 'a \<Rightarrow> ('a \<Rightarrow> 'e + 'b) \<Rightarrow> 'e + 'b" where
  "bindE m f = (case m of Inl e \<Rightarrow> Inl e | Inr x \<Rightarrow> f x)"


text \<open>
  Property read \<^verbatim>\<open>v.k\<close>: a \<^verbatim>\<open>TypeError\<close> on \<^verbatim>\<open>null\<close> and \<^verbatim>\<open>undefined\<close>, the own
  property of an object, \<^verbatim>\<open>length\<close> of an array or string, \<^verbatim>\<open>undefined\<close> otherwise.
\<close>

fun lookup :: "(string \<times> jsval) list \<Rightarrow> string \<Rightarrow> jsval" where
  "lookup [] k = Undefined"
| "lookup ((k', v) # kvs) k = (if k' = k then v else lookup kvs k)"

fun getProp :: "jsval \<Rightarrow> string \<Rightarrow> js_error + jsval" where
  "getProp Undefined k = Inl TypeError"
| "getProp Null k = Inl TypeError"
| "getProp (Obj kvs) k = Inr (lookup kvs k)"
| "getProp (Arr xs) k = Inr (if k = ''length'' then Num (of_nat (length xs)) else Undefined)"
| "getProp (Str s) k = Inr (if k = ''length'' then Num (of_nat (length s)) else Undefined)"
| "getProp v k = Inr Undefined"

text \<open>Optional chaining \<^verbatim>\<open>v?.k\<close>.\<close>

fun optProp :: "jsval \<Rightarrow> string \<Rightarrow> jsval" where
  "optProp (Obj kvs) k = lookup kvs k"
| "optProp (Arr xs) k = (if k = ''length'' then Num (of_nat (length xs)) else Undefined)"
| "optProp (Str s) k = (if k = ''length'' then Num (of_nat (length s)) else Undefined)"
| "optProp v k = Undefined"

fun truthy :: "jsval \<Rightarrow> bool" where
  "truthy Undefined = False"
| "truthy Null = False"
| "truthy (Bool b) = b"
| "truthy (Num n) = (n \<noteq> 0)"
| "truthy (Str s) = (s \<noteq> [])"
| "truthy (Arr xs) = True"
| "truthy (Obj kvs) = True"



text \<open>\<^verbatim>\<open>typeof v === 'object'\<close>: objects, arrays and \<^verbatim>\<open>null\<close>.\<close>

fun isObjectType :: "jsval \<Rightarrow> bool" where
  "isObjectType (Obj kvs) = True"
| "isObjectType (Arr xs) = True"
| "isObjectType Null = True"
| "isObjectType v = False"


definition is_space :: "char \<Rightarrow> bool" where
  "is_space c = (c \<in> set [CHR '' '', CHR 0x09, CHR 0x0A, CHR 0x0B, CHR 0x0C, CHR 0x0D])"

definition trim :: "string \<Rightarrow> string" where
  "trim s = rev (dropWhile is_space (rev (dropWhile is_space s)))"

section \<open>The invalid-assistant-message filter\<close>







section \<open>Message conversion\<close>

text \<open>
  The built-in functions of the JavaScript runtime that the converters call are not code
  of the repository; they are parameters of the model: \<^verbatim>\<open>JSON.parse\<close> (\<open>None\<close> when it
  throws a \<^verbatim>\<open>SyntaxError\<close>), \<^verbatim>\<open>JSON.stringify\<close> (\<open>None\<close> when it returns
  \<^verbatim>\<open>undefined\<close>), the decimal rendering of a number, the regular expression that
  recognises a \<^verbatim>\<open>data:image/...;base64,...\<close> URL (format and data), and the three
  regular-expression replacements that strip image markup from the text of an image model.
\<close>

record builtins =
  json_parse :: "string \<Rightarrow> jsval option"
  json_stringify :: "jsval \<Rightarrow> string option"
  num_to_string :: "rat \<Rightarrow> string"
  match_data_url :: "string \<Rightarrow> (string \<times> string) option"
  strip_image_markup :: "string \<Rightarrow> string"





text \<open>\<^verbatim>\<open>text.replace(/<think>/g, '<THOUGHT>').replace(/<\/think>/g, '</THOUGHT>')\<close>.\<close>

fun startsWith :: "string \<Rightarrow> string \<Rightarrow> bool" where
  "startsWith s [] = True"
| "startsWith [] (p # ps) = False"
| "startsWith (c # cs) (p # ps) = (c = p \<and> startsWith cs ps)"



record amsg =
  role :: string
  parts :: "jsval list"

definition textPart :: "string \<Rightarrow> jsval" where
  "textPart s = Obj [(''text'', Str s)]"

subsection \<open>User messages\<close>




subsection \<open>Assistant messages\<close>








subsection \<open>Tool messages\<close>




subsection \<open>The message list\<close>









section \<open>The text-frame stream parser\<close>

text \<open>
  The events handed to the caller's callback. An error event carries its content and,
  where the source attaches it, the upstream response body.
\<close>

datatype event =
    Reasoning jsval
  | Text jsval
  | Image jsval jsval
  | ToolCalls "jsval list"
  | ErrorEvent string "string option"

text \<open>
  The \<^verbatim>\<open>functionCall\<close> branch of the parser in \<^verbatim>\<open>generateResponse\<close>: an upstream
  function-call part becomes an OpenAI tool-call description.
\<close>

definition partToToolCall :: "builtins \<Rightarrow> jsval \<Rightarrow> jsval" where
  "partToToolCall B part =
     (let fc = optProp part ''functionCall'';
          sig = optProp part ''thoughtSignature''
      in Obj ([(''id'', optProp fc ''id''),
               (''type'', Str ''function''),
               (''function'',
                  Obj [(''name'', optProp fc ''name''),
                       (''arguments'',
                          (case json_stringify B (optProp fc ''args'') of
                             None \<Rightarrow> Undefined | Some a \<Rightarrow> Str a))])]
              @ (if truthy sig
                 then [(''extra_content'', Obj [(''google'', Obj [(''thought_signature'', sig)])])]
                 else [])))"

text \<open>
  One part of a record: the events it emits and the tool calls accumulated so far. A
  \<^verbatim>\<open>TypeError\<close> abandons the rest of the record (the handler around \<^verbatim>\<open>JSON.parse\<close>
  catches it), keeping what was emitted and accumulated before.
\<close>

definition processPart :: "builtins \<Rightarrow> jsval \<Rightarrow> jsval list \<Rightarrow> js_error + event list \<times> jsval list" where
  "processPart B part toolCalls =
     bindE (getProp part ''thought'') (\<lambda>thought.
     bindE (getProp part ''text'') (\<lambda>tx.
       if thought = Bool True then Inr ([Reasoning (if truthy tx then tx else Str [])], toolCalls)
       else if tx \<noteq> Undefined then
         (case tx of
            Str s \<Rightarrow> Inr (if trim s = [] then [] else [Text tx], toolCalls)
          | _ \<Rightarrow> Inl TypeError)
       else if truthy (optProp part ''inlineData'') then
         Inr ([Image (optProp (optProp part ''inlineData'') ''mimeType'')
                     (optProp (optProp part ''inlineData'') ''data'')], toolCalls)
       else if truthy (optProp part ''functionCall'') then
         Inr ([], toolCalls @ [partToToolCall B part])
       else Inr ([], toolCalls)))"

fun processParts :: "builtins \<Rightarrow> jsval list \<Rightarrow> jsval list \<Rightarrow> event list \<times> jsval list \<times> bool" where
  "processParts B [] toolCalls = ([], toolCalls, True)"
| "processParts B (part # ps) toolCalls =
     (case processPart B part toolCalls of
        Inl e \<Rightarrow> ([], toolCalls, False)
      | Inr (evs, tcs) \<Rightarrow>
          (case processParts B ps tcs of (evs', tcs', ok) \<Rightarrow> (evs @ evs', tcs', ok)))"

text \<open>
  One decoded \<^verbatim>\<open>data:\<close> record: its parts (the empty list when the record has none) and
  whether it carries a finish reason. Accumulated tool calls are flushed as one batched
  event when the record carries a finish reason.
\<close>

definition processRecord ::
  "builtins \<Rightarrow> jsval list \<Rightarrow> bool \<Rightarrow> jsval list \<Rightarrow> event list \<times> jsval list" where
  "processRecord B ps finishReason toolCalls =
     (case processParts B ps toolCalls of
        (evs, tcs, ok) \<Rightarrow>
          if ok \<and> finishReason \<and> tcs \<noteq> [] then (evs @ [ToolCalls tcs], []) else (evs, tcs))"

fun processRecords ::
  "builtins \<Rightarrow> (jsval list \<times> bool) list \<Rightarrow> jsval list \<Rightarrow> event list" where
  "processRecords B [] toolCalls = []"
| "processRecords B ((ps, fin) # rs) toolCalls =
     (case processRecord B ps fin toolCalls of
        (evs, tcs) \<Rightarrow> evs @ processRecords B rs tcs)"

text \<open>The parts carried by the \<^verbatim>\<open>model\<close> turns of a converted transcript.\<close>

definition modelParts :: "amsg list \<Rightarrow> jsval set" where
  "modelParts msgs = {p. \<exists>am \<in> set msgs. role am = ''model'' \<and> p \<in> set (parts am)}"

section \<open>Tool schemas\<close>

definition UNSUPPORTED_SCHEMA_KEYS :: "string list" where
  "UNSUPPORTED_SCHEMA_KEYS =
     [''$schema'', ''$id'', ''$defs'', ''definitions'',
      ''allOf'', ''anyOf'', ''oneOf'', ''not'', ''if'', ''then'', ''else'',
      ''pattern'', ''patternProperties'', ''propertyNames'',
      ''minLength'', ''maxLength'',
      ''minItems'', ''maxItems'', ''uniqueItems'', ''contains'',
      ''minimum'', ''maximum'', ''exclusiveMinimum'', ''exclusiveMaximum'', ''multipleOf'',
      ''dependentSchemas'', ''dependentRequired'',
      ''additionalItems'', ''unevaluatedItems'', ''unevaluatedProperties'']"

text \<open>
  \<^verbatim>\<open>normalizeJsonSchema\<close>. The source copies the object, deletes the denied keys and
  then rewrites the values under \<^verbatim>\<open>properties\<close>, \<^verbatim>\<open>items\<close> and
  \<^verbatim>\<open>additionalProperties\<close>; the three rewrites touch different keys, so the model makes
  one pass over the properties of the object (\<open>normalizeEntries\<close>). A non-array object
  under \<^verbatim>\<open>properties\<close> has each of its values normalised (\<open>normalizeProperties\<close>);
  \<^verbatim>\<open>null\<close> under \<^verbatim>\<open>properties\<close> makes \<^verbatim>\<open>Object.entries\<close> throw a \<^verbatim>\<open>TypeError\<close>.
  A property named \<^verbatim>\<open>__proto__\<close> is kept like any other; in the source the assignment
  sets the prototype of the copy and the entry does not appear in the result.
\<close>

fun normalizeJsonSchema :: "jsval \<Rightarrow> js_error + jsval"
  and normalizeArray :: "jsval list \<Rightarrow> js_error + jsval list"
  and normalizeProperties :: "(string \<times> jsval) list \<Rightarrow> js_error + (string \<times> jsval) list"
  and normalizeEntries :: "(string \<times> jsval) list \<Rightarrow> js_error + (string \<times> jsval) list"
where
  "normalizeJsonSchema (Arr xs) = bindE (normalizeArray xs) (\<lambda>ys. Inr (Arr ys))"
| "normalizeJsonSchema (Obj kvs) = bindE (normalizeEntries kvs) (\<lambda>normalized. Inr (Obj normalized))"
| "normalizeJsonSchema Undefined = Inr Undefined"
| "normalizeJsonSchema Null = Inr Null"
| "normalizeJsonSchema (Bool b) = Inr (Bool b)"
| "normalizeJsonSchema (Num n) = Inr (Num n)"
| "normalizeJsonSchema (Str s) = Inr (Str s)"
| "normalizeArray [] = Inr []"
| "normalizeArray (x # xs) =
     bindE (normalizeJsonSchema x) (\<lambda>y. bindE (normalizeArray xs) (\<lambda>ys. Inr (y # ys)))"
| "normalizeProperties [] = Inr []"
| "normalizeProperties ((propKey, propValue) # ps) =
     bindE (normalizeJsonSchema propValue) (\<lambda>v.
     bindE (normalizeProperties ps) (\<lambda>processed. Inr ((propKey, v) # processed)))"
| "normalizeEntries [] = Inr []"
| "normalizeEntries ((k, v) # kvs) =
     (if k \<in> set UNSUPPORTED_SCHEMA_KEYS then normalizeEntries kvs
      else
        bindE
          (if k = ''properties'' then
             (case v of
                Obj ps \<Rightarrow> bindE (normalizeProperties ps) (\<lambda>processed. Inr (Obj processed))
              | Null \<Rightarrow> Inl TypeError
              | _ \<Rightarrow> Inr v)
           else if k = ''items'' then normalizeJsonSchema v
           else if k = ''additionalProperties'' \<and> isObjectType v then normalizeJsonSchema v
           else Inr v)
          (\<lambda>v'. bindE (normalizeEntries kvs) (\<lambda>rest. Inr ((k, v') # rest))))"






section \<open>The binary length-prefixed stream parser\<close>

type_synonym byte = "8 word"

text \<open>
  \<^verbatim>\<open>Buffer.readUInt32BE(offset)\<close>: four bytes, most significant first, as an unsigned
  number; a \<^verbatim>\<open>RangeError\<close> when the four bytes are not all inside the buffer. The
  arithmetic on the result is JavaScript number arithmetic, which is exact at this size,
  so lengths and offsets are natural numbers.
\<close>

definition readUInt32BE :: "byte list \<Rightarrow> nat \<Rightarrow> js_error + nat" where
  "readUInt32BE buf offset =
     (if offset + 4 \<le> length buf
      then Inr (unat (buf ! offset) * 2 ^ 24 + unat (buf ! (offset + 1)) * 2 ^ 16
                + unat (buf ! (offset + 2)) * 2 ^ 8 + unat (buf ! (offset + 3)))
      else Inl RangeError)"

text \<open>\<^verbatim>\<open>Buffer.slice(start, end)\<close> for \<open>start \<le> end\<close>, and \<^verbatim>\<open>toString('utf-8')\<close>.\<close>

definition slice :: "'a list \<Rightarrow> nat \<Rightarrow> nat \<Rightarrow> 'a list" where
  "slice xs start stop = take (stop - start) (drop start xs)"

definition bytesToString :: "byte list \<Rightarrow> string" where
  "bytesToString bs = map (\<lambda>b. char_of (unat b)) bs"

text \<open>
  \<^verbatim>\<open>parseSingleMessage\<close>: \<open>Inr None\<close> is the \<^verbatim>\<open>null\<close> result (short data, empty payload,
  payload that is not JSON), \<open>Inl\<close> a thrown error.
\<close>

definition parseSingleMessage :: "builtins \<Rightarrow> byte list \<Rightarrow> js_error + jsval option" where
  "parseSingleMessage B data =
     (if length data < 16 then Inr None
      else
        bindE (readUInt32BE data 0) (\<lambda>totalLength.
        bindE (readUInt32BE data 4) (\<lambda>headerLength.
          if totalLength \<noteq> length data then Inl (Error ''length mismatch'')
          else
            let payloadStart = 12 + headerLength;
                payloadEnd = totalLength - 4
            in if payloadStart > payloadEnd \<or> payloadEnd > length data
               then Inl (Error ''payload bounds'')
               else
                 let payloadData = slice data payloadStart payloadEnd
                 in if payloadData = [] then Inr None
                    else Inr (json_parse B (bytesToString payloadData)))))"

text \<open>
  The \<^verbatim>\<open>while\<close> loop of the \<^verbatim>\<open>data\<close> handler in \<^verbatim>\<open>handleStreamResponse\<close>, run on the
  buffer after the chunk has been appended. It returns the messages handed to
  \<^verbatim>\<open>processMessage\<close>, in order, and the bytes left in the buffer for the next chunk.
  Whatever \<^verbatim>\<open>parseSingleMessage\<close> (or \<^verbatim>\<open>processMessage\<close>) throws is caught and logged
  inside the loop.
\<close>

function drainBuffer :: "builtins \<Rightarrow> byte list \<Rightarrow> js_error + jsval list \<times> byte list" where
  "drainBuffer B buffer =
     (if length buffer < 16 then Inr ([], buffer)
      else
        case readUInt32BE buffer 0 of
          Inl e \<Rightarrow> Inl e
        | Inr totalLength \<Rightarrow>
            if totalLength < 16 \<or> totalLength > 16 * 1024 * 1024 then drainBuffer B (drop 1 buffer)
            else if length buffer < totalLength then Inr ([], buffer)
            else
              let messageData = take totalLength buffer;
                  delivered =
                    (case parseSingleMessage B messageData of
                       Inr (Some message) \<Rightarrow> if truthy message then [message] else []
                     | _ \<Rightarrow> [])
              in (case drainBuffer B (drop totalLength buffer) of
                    Inl e \<Rightarrow> Inl e
                  | Inr (ms, left) \<Rightarrow> Inr (delivered @ ms, left)))"
  by pat_completeness auto
termination
  by (relation "measure (\<lambda>(B, buffer). length buffer)") auto

definition handleData ::
  "builtins \<Rightarrow> byte list \<Rightarrow> byte list \<Rightarrow> js_error + jsval list \<times> byte list" where
  "handleData B buffer chunk = drainBuffer B (buffer @ chunk)"



text \<open>The messages that one frame hands to \<^verbatim>\<open>processMessage\<close>: at most one.\<close>

definition delivered :: "builtins \<Rightarrow> byte list \<Rightarrow> jsval list" where
  "delivered B frame =
     (case parseSingleMessage B frame of
        Inr (Some message) \<Rightarrow> if truthy message then [message] else []
      | _ \<Rightarrow> [])"

section \<open>The account table\<close>

text \<open>
  One row of the \<^verbatim>\<open>accounts\<close> table, and the table as the list of its rows in creation
  order (the order of \<^verbatim>\<open>ORDER BY created_at ASC\<close>). The operations of
  \<^verbatim>\<open>AccountService\<close> run against this list; failures of the storage engine itself are
  not modelled, nor is the check of the table that a status is 0 or 1 (the callers
  modelled here store 0 only).
\<close>

record account =
  cookie_id :: string
  user_id :: string
  is_shared :: nat
  access_token :: string
  refresh_token :: string
  expires_at :: int
  status :: nat
  need_refresh :: nat
  project_id_0 :: string

definition getAvailableAccounts :: "account list \<Rightarrow> string option \<Rightarrow> nat option \<Rightarrow> account list" where
  "getAvailableAccounts store uid shared =
     filter (\<lambda>a. status a = 1 \<and> need_refresh a = 0
                 \<and> (case shared of None \<Rightarrow> True | Some s \<Rightarrow> is_shared a = s)
                 \<and> (case uid of None \<Rightarrow> True | Some u \<Rightarrow> shared = Some 1 \<or> user_id a = u))
       store"

definition accountExists :: "account list \<Rightarrow> string \<Rightarrow> bool" where
  "accountExists store cid = (\<exists>a \<in> set store. cookie_id a = cid)"

definition updateAccountStatus :: "account list \<Rightarrow> string \<Rightarrow> nat \<Rightarrow> js_error + account list" where
  "updateAccountStatus store cid st =
     (if accountExists store cid
      then Inr (map (\<lambda>a. if cookie_id a = cid then a\<lparr>status := st\<rparr> else a) store)
      else Inl (Error ''account does not exist''))"

definition markAccountNeedRefresh :: "account list \<Rightarrow> string \<Rightarrow> js_error + account list" where
  "markAccountNeedRefresh store cid =
     (if accountExists store cid
      then Inr (map (\<lambda>a. if cookie_id a = cid then a\<lparr>status := 0, need_refresh := 1\<rparr> else a) store)
      else Inl (Error ''account does not exist''))"

definition updateAccountToken :: "account list \<Rightarrow> string \<Rightarrow> string \<Rightarrow> int \<Rightarrow> js_error + account list" where
  "updateAccountToken store cid token expires =
     (if accountExists store cid
      then Inr (map (\<lambda>a. if cookie_id a = cid then a\<lparr>access_token := token, expires_at := expires\<rparr> else a)
                  store)
      else Inl (Error ''account does not exist''))"

text \<open>\<^verbatim>\<open>isTokenExpired\<close>, with the value of \<^verbatim>\<open>Date.now()\<close>: five minutes of margin.\<close>

definition isTokenExpired :: "int \<Rightarrow> account \<Rightarrow> bool" where
  "isTokenExpired now a = (expires_at a = 0 \<or> now \<ge> expires_at a - 300000)"

section \<open>Credential selection\<close>

text \<open>
  What \<^verbatim>\<open>getAvailableAccount\<close> reads from outside the account table. The quota service
  is not part of the sources at hand, so its three queries are parameters, as are the
  token endpoint and the clock. A row of the shared quota pool has a current quota and a
  ceiling.
\<close>

record pool =
  quota :: real
  max_quota :: real

datatype refresh_result =
    Refreshed string int
  | InvalidGrant
  | RefreshFailed

record selection_env =
  now :: int
  isModelAvailable :: "string \<Rightarrow> string \<Rightarrow> bool"
  getQuotaSharedModels :: "string \<Rightarrow> string list"
  getUserModelSharedQuotaPool :: "string \<Rightarrow> string \<Rightarrow> pool option"
  refreshAccessToken :: "string \<Rightarrow> refresh_result"

text \<open>The inner loop over the quota-sharing group of the model.\<close>

definition hasQuota :: "selection_env \<Rightarrow> string \<Rightarrow> string \<Rightarrow> bool" where
  "hasQuota E uid model_name =
     (\<exists>sharedModel \<in> set (getQuotaSharedModels E model_name).
        case getUserModelSharedQuotaPool E uid sharedModel of
          None \<Rightarrow> False
        | Some userQuota \<Rightarrow> quota userQuota > 0)"

definition availableFor :: "selection_env \<Rightarrow> string \<Rightarrow> string \<Rightarrow> account \<Rightarrow> bool" where
  "availableFor E uid model_name a =
     (isModelAvailable E (cookie_id a) model_name \<and> (is_shared a = 1 \<longrightarrow> hasQuota E uid model_name))"

text \<open>
  The first part of \<^verbatim>\<open>getAvailableAccount\<close>, up to the random choice. The preference is
  \<^verbatim>\<open>user?.prefer_shared ?? 0\<close> (\<open>None\<close> when the user or the field is missing); \<open>u\<close> is
  the value of \<^verbatim>\<open>Math.random()\<close>. Reading \<^verbatim>\<open>cookie_id\<close> of an element outside the
  pool is a \<^verbatim>\<open>TypeError\<close>.
\<close>

definition candidateAccounts :: "account list \<Rightarrow> string \<Rightarrow> nat option \<Rightarrow> string list \<Rightarrow> account list" where
  "candidateAccounts store uid prefer_shared excludeCookieIds =
     (let preferShared = (case prefer_shared of None \<Rightarrow> 0 | Some p \<Rightarrow> p);
          sharedAccounts = getAvailableAccounts store None (Some 1);
          dedicatedAccounts = getAvailableAccounts store (Some uid) (Some 0);
          accounts = (if preferShared = 1 then sharedAccounts @ dedicatedAccounts
                      else dedicatedAccounts @ sharedAccounts)
      in if excludeCookieIds \<noteq> []
         then filter (\<lambda>acc. cookie_id acc \<notin> set excludeCookieIds) accounts
         else accounts)"

definition selectedPool :: "nat option \<Rightarrow> account list \<Rightarrow> account list" where
  "selectedPool prefer_shared availableAccounts =
     (let preferShared = (case prefer_shared of None \<Rightarrow> 0 | Some p \<Rightarrow> p) in
      if preferShared = 1 then
        (let sharedAvailable = filter (\<lambda>acc. is_shared acc = 1) availableAccounts in
         if sharedAvailable \<noteq> [] then sharedAvailable
         else filter (\<lambda>acc. is_shared acc = 0) availableAccounts)
      else
        (let dedicatedAvailable = filter (\<lambda>acc. is_shared acc = 0) availableAccounts in
         if dedicatedAvailable \<noteq> [] then dedicatedAvailable
         else filter (\<lambda>acc. is_shared acc = 1) availableAccounts))"

definition pickAccount ::
  "selection_env \<Rightarrow> real \<Rightarrow> account list \<Rightarrow> string \<Rightarrow> string \<Rightarrow> nat option \<Rightarrow> string list
   \<Rightarrow> js_error + account" where
  "pickAccount E u store uid model_name prefer_shared excludeCookieIds =
     (let accounts = candidateAccounts store uid prefer_shared excludeCookieIds in
      if accounts = [] then Inl (Error ''no account available'')
      else
        let availableAccounts = filter (availableFor E uid model_name) accounts in
        if availableAccounts = [] then Inl (Error ''quota exhausted for every account'')
        else
          let chosen = selectedPool prefer_shared availableAccounts;
              randomIndex = nat \<lfloor>u * real (length chosen)\<rfloor>
          in if randomIndex < length chosen then Inr (chosen ! randomIndex) else Inl TypeError)"

text \<open>
  The second part: the token refresh of the chosen account. \<open>Kept\<close> is the account that
  is returned (with the new token when it was refreshed), \<open>Dropped\<close> the table after the
  account has been disabled or marked for reauthorisation, \<open>Threw\<close> an error of the
  table operation in the handler.
\<close>

datatype refresh_outcome =
    Kept account "account list"
  | Dropped "account list"
  | Threw js_error

definition refreshIfExpired :: "selection_env \<Rightarrow> account list \<Rightarrow> account \<Rightarrow> refresh_outcome" where
  "refreshIfExpired E store acc =
     (if isTokenExpired (now E) acc then
        (case refreshAccessToken E (refresh_token acc) of
           Refreshed token expires_in \<Rightarrow>
             (case updateAccountToken store (cookie_id acc) token (now E + expires_in * 1000) of
                Inr store' \<Rightarrow>
                  Kept (acc\<lparr>access_token := token, expires_at := now E + expires_in * 1000\<rparr>) store'
              | Inl e \<Rightarrow>
                  (case markAccountNeedRefresh store (cookie_id acc) of
                     Inr store' \<Rightarrow> Dropped store' | Inl e' \<Rightarrow> Threw e'))
         | InvalidGrant \<Rightarrow>
             (case updateAccountStatus store (cookie_id acc) 0 of
                Inr store' \<Rightarrow> Dropped store' | Inl e' \<Rightarrow> Threw e')
         | RefreshFailed \<Rightarrow>
             (case markAccountNeedRefresh store (cookie_id acc) of
                Inr store' \<Rightarrow> Dropped store' | Inl e' \<Rightarrow> Threw e'))
      else Kept acc store)"

definition enabledCount :: "account list \<Rightarrow> nat" where
  "enabledCount store = length (filter (\<lambda>a. status a = 1) store)"

lemma filter_map_length_le:
  "(\<And>x. x \<in> set xs \<Longrightarrow> Q (f x) \<Longrightarrow> P x) \<Longrightarrow> length (filter Q (map f xs)) \<le> length (filter P xs)"
  by (induction xs) auto

lemma filter_map_length_less:
  "(\<And>x. x \<in> set xs \<Longrightarrow> Q (f x) \<Longrightarrow> P x) \<Longrightarrow> a \<in> set xs \<Longrightarrow> P a \<Longrightarrow> \<not> Q (f a) \<Longrightarrow>
   length (filter Q (map f xs)) < length (filter P xs)"
proof (induction xs)
  case Nil
  then show ?case by simp
next
  case (Cons x xs)
  show ?case
  proof (cases "x = a")
    case True
    have "length (filter Q (map f xs)) \<le> length (filter P xs)"
      using Cons.prems(1) by (intro filter_map_length_le) auto
    with True Cons.prems(3,4) show ?thesis by simp
  next
    case False
    with Cons.prems have "a \<in> set xs" by simp
    from Cons.IH [OF _ this Cons.prems(3,4)] Cons.prems(1)
    have "length (filter Q (map f xs)) < length (filter P xs)" by simp
    moreover have "Q (f x) \<Longrightarrow> P x" using Cons.prems(1) by simp
    ultimately show ?thesis by auto
  qed
qed

lemma disabling_decreases:
  assumes "acc \<in> set store" and "status acc = 1"
    and "\<And>a. status (f a) = 1 \<Longrightarrow> status a = 1" and "status (f acc) \<noteq> 1"
  shows "enabledCount (map f store) < enabledCount store"
  unfolding enabledCount_def
  using assms by (intro filter_map_length_less [where a = acc]) auto

lemma candidateAccounts_subset:
  "acc \<in> set (candidateAccounts store uid prefer excl) \<Longrightarrow> acc \<in> set store \<and> status acc = 1"
  by (auto simp: candidateAccounts_def getAvailableAccounts_def Let_def split: if_splits)

lemma selectedPool_subset: "set (selectedPool prefer av) \<subseteq> set av"
  by (auto simp: selectedPool_def Let_def)

lemma pickAccount_member:
  assumes "pickAccount E u store uid model_name prefer excl = Inr acc"
  shows "acc \<in> set (selectedPool prefer
            (filter (availableFor E uid model_name) (candidateAccounts store uid prefer excl)))"
  using assms by (auto simp: pickAccount_def Let_def split: if_splits)

lemma pickAccount_enabled:
  assumes "pickAccount E u store uid model_name prefer excl = Inr acc"
  shows "acc \<in> set store \<and> status acc = 1"
  using pickAccount_member [OF assms] selectedPool_subset candidateAccounts_subset
  by fastforce

lemma refresh_dropped_decreases:
  assumes "refreshIfExpired E store acc = Dropped store'" and "acc \<in> set store" and "status acc = 1"
  shows "enabledCount store' < enabledCount store"
proof -
  let ?f = "\<lambda>a. if cookie_id a = cookie_id acc then a\<lparr>status := 0\<rparr> else a"
  let ?g = "\<lambda>a. if cookie_id a = cookie_id acc then a\<lparr>status := 0, need_refresh := 1\<rparr> else a"
  from assms(1) have "store' = map ?f store \<or> store' = map ?g store"
    by (auto simp: refreshIfExpired_def updateAccountStatus_def markAccountNeedRefresh_def
        split: if_splits refresh_result.splits sum.splits)
  then show ?thesis
  proof
    assume "store' = map ?f store"
    moreover have "enabledCount (map ?f store) < enabledCount store"
      by (rule disabling_decreases [OF assms(2,3)]) (simp_all split: if_splits)
    ultimately show ?thesis by simp
  next
    assume "store' = map ?g store"
    moreover have "enabledCount (map ?g store) < enabledCount store"
      by (rule disabling_decreases [OF assms(2,3)]) (simp_all split: if_splits)
    ultimately show ?thesis by simp
  qed
qed

text \<open>
  \<^verbatim>\<open>getAvailableAccount\<close>: choose, refresh the token when it is about to expire, and
  start again without the account when the refresh fails. \<open>rnd\<close> is the sequence of
  values that \<^verbatim>\<open>Math.random()\<close> returns. The function returns its result (the account,
  or the error thrown) and the account table as it leaves it. Each restart has disabled
  one enabled account, which is why the recursion ends.
\<close>

function getAvailableAccount ::
  "selection_env \<Rightarrow> (nat \<Rightarrow> real) \<Rightarrow> account list \<Rightarrow> string \<Rightarrow> string \<Rightarrow> nat option \<Rightarrow> string list
   \<Rightarrow> (js_error + account) \<times> account list" where
  "getAvailableAccount E rnd store uid model_name prefer_shared excludeCookieIds =
     (case pickAccount E (rnd 0) store uid model_name prefer_shared excludeCookieIds of
        Inl e \<Rightarrow> (Inl e, store)
      | Inr acc \<Rightarrow>
          (case refreshIfExpired E store acc of
             Kept acc' store' \<Rightarrow> (Inr acc', store')
           | Threw e \<Rightarrow> (Inl e, store)
           | Dropped store' \<Rightarrow>
               getAvailableAccount E (\<lambda>n. rnd (Suc n)) store' uid model_name prefer_shared
                 (excludeCookieIds @ [cookie_id acc])))"
  by pat_completeness auto
termination
proof (relation "measure (\<lambda>(E, rnd, store, uid, model_name, prefer_shared, excludeCookieIds). enabledCount store)")
  show "wf (measure (\<lambda>(E, rnd, store, uid, model_name, prefer_shared, excludeCookieIds). enabledCount store))"
    by simp
next
  fix E :: selection_env and rnd :: "nat \<Rightarrow> real" and store uid model_name prefer_shared excludeCookieIds acc store'
  assume "pickAccount E (rnd 0) store uid model_name prefer_shared excludeCookieIds = Inr acc"
    and "refreshIfExpired E store acc = Dropped store'"
  then show "((E, \<lambda>n. rnd (Suc n), store', uid, model_name, prefer_shared, excludeCookieIds @ [cookie_id acc]),
              (E, rnd, store, uid, model_name, prefer_shared, excludeCookieIds))
             \<in> measure (\<lambda>(E, rnd, store, uid, model_name, prefer_shared, excludeCookieIds). enabledCount store)"
    using refresh_dropped_decreases pickAccount_enabled by fastforce
qed

declare getAvailableAccount.simps [simp del]

text \<open>
  Two rows are the same account when they agree on the key, the owner and the tier; the
  second may be a later state of the first, in which an enabled account was enabled
  before, with the same reauthorisation flag.
\<close>

definition sameRow :: "account \<Rightarrow> account \<Rightarrow> bool" where
  "sameRow a a' = (cookie_id a' = cookie_id a \<and> user_id a' = user_id a \<and> is_shared a' = is_shared a
     \<and> (status a' = 1 \<longrightarrow> status a = 1 \<and> need_refresh a' = need_refresh a))"




section \<open>The upstream call orchestrator\<close>

text \<open>\<^verbatim>\<open>String.prototype.includes\<close>.\<close>

fun includesText :: "string \<Rightarrow> string \<Rightarrow> bool" where
  "includesText [] pat = (pat = [])"
| "includesText (c # cs) pat = (startsWith (c # cs) pat \<or> includesText cs pat)"

text \<open>
  What one physical attempt gets back from \<^verbatim>\<open>fetch\<close>: a network failure (the promise
  rejects), or a response with its status, its body text and, for a successful stream,
  the decoded \<^verbatim>\<open>data:\<close> records. A logical request is run against the list of the
  results of its attempts, in order; when the list is used up the request is still
  waiting for a response.
\<close>

datatype response =
    NetworkFailure
  | Response nat string "(jsval list \<times> bool) list"

datatype thrown =
    ApiError string nat string
  | JsError js_error

datatype outcome =
    Returned
  | Thrown thrown
  | Awaiting

datatype first403 = PERMISSION_DENIED | OTHER_403

datatype kind = Chat | Image

text \<open>
  What a request leaves behind: the events passed to the callback, the attempts made
  (account and endpoint index), how the call ended, and the account table.
\<close>

record trace =
  events :: "event list"
  attempts :: "(string \<times> nat) list"
  outcome :: outcome
  final_store :: "account list"

text \<open>
  The surroundings of the orchestrator: credential selection for the user and model of
  the request (\<^verbatim>\<open>getAvailableAccount\<close> with the account table and the exclusion list),
  the number of configured endpoints, and the built-ins of the stream parser.
\<close>

record orchestrator_env =
  selectAccount :: "account list \<Rightarrow> string list \<Rightarrow> (js_error + account) \<times> account list"
  totalEndpoints :: nat
  js :: builtins

definition MAX_RETRY_COUNT :: "kind \<Rightarrow> nat" where
  "MAX_RETRY_COUNT k = (case k of Chat \<Rightarrow> 5 | Image \<Rightarrow> 3)"

text \<open>
  \<^verbatim>\<open>generateImage\<close> is \<^verbatim>\<open>generateResponse\<close> without the callback: where the chat call
  reports an error event and throws, the image call only throws; where the chat call
  reports \<^verbatim>\<open>RESOURCE_EXHAUSTED\<close> and returns, the image call throws an \<^verbatim>\<open>ApiError\<close>
  \<^verbatim>\<open>RESOURCE_EXHAUSTED\<close> with status 429. One model serves both, by \<open>kind\<close>.
\<close>

definition stop :: "kind \<Rightarrow> event list \<Rightarrow> outcome \<Rightarrow> account list \<Rightarrow> trace" where
  "stop k evs out st =
     \<lparr>events = (case k of Chat \<Rightarrow> evs | Image \<Rightarrow> []), attempts = [], outcome = out, final_store = st\<rparr>"

definition quotaStop :: "kind \<Rightarrow> account list \<Rightarrow> trace" where
  "quotaStop k st =
     (case k of
        Chat \<Rightarrow> stop k [ErrorEvent ''RESOURCE_EXHAUSTED'' None] Returned st
      | Image \<Rightarrow> stop k [] (Thrown (ApiError ''RESOURCE_EXHAUSTED'' 429 ''RESOURCE_EXHAUSTED'')) st)"

text \<open>
  The handlers around a retry with another account: they catch whatever the selection or
  the nested call throws.
\<close>

definition afterQuotaRetry :: "kind \<Rightarrow> trace \<Rightarrow> trace" where
  "afterQuotaRetry k t =
     (case outcome t of
        Thrown e \<Rightarrow>
          (case k of
             Chat \<Rightarrow> t\<lparr>events := events t @ [ErrorEvent ''RESOURCE_EXHAUSTED'' None], outcome := Returned\<rparr>
           | Image \<Rightarrow> t\<lparr>outcome := Thrown (ApiError ''RESOURCE_EXHAUSTED'' 429 ''RESOURCE_EXHAUSTED'')\<rparr>)
      | _ \<Rightarrow> t)"

definition afterProjectRetry :: "kind \<Rightarrow> trace \<Rightarrow> trace" where
  "afterProjectRetry k t =
     (case outcome t of
        Thrown e \<Rightarrow>
          t\<lparr>events := events t @ (case k of Chat \<Rightarrow> [ErrorEvent ''RESOURCE_PROJECT_INVALID'' None] | Image \<Rightarrow> []),
            outcome := Thrown (ApiError ''RESOURCE_PROJECT_INVALID'' 400 ''RESOURCE_PROJECT_INVALID'')\<rparr>
      | _ \<Rightarrow> t)"

definition quotaMarked :: "string \<Rightarrow> bool" where
  "quotaMarked responseText = (includesText responseText ''quota'' \<or> includesText responseText ''RESOURCE_EXHAUSTED'')"

definition currentFirstError403Type :: "first403 option \<Rightarrow> string \<Rightarrow> first403" where
  "currentFirstError403Type firstError403Type responseText =
     (case firstError403Type of
        None \<Rightarrow> if includesText responseText ''The caller does not have permission''
                then PERMISSION_DENIED else OTHER_403
      | Some t \<Rightarrow> t)"

text \<open>
  One call of \<^verbatim>\<open>generateResponse\<close> (or \<^verbatim>\<open>generateImage\<close>) with its account already
  chosen, and the calls it makes to itself. The arguments are those of the source:
  the account, the exclusion list, the retry count, the endpoint index and the type of
  the first 403. The quota bookkeeping before the request and after a successful stream
  only reads and writes quota rows and swallows its own errors; it is left out. A
  successful response is taken to have a body that can be read: the \<^verbatim>\<open>TypeError\<close> of
  a response without a body and, for images, the \<^verbatim>\<open>SyntaxError\<close> of a body that is
  not JSON are left out.
\<close>

fun attempt ::
  "orchestrator_env \<Rightarrow> kind \<Rightarrow> account \<Rightarrow> string list \<Rightarrow> nat \<Rightarrow> nat \<Rightarrow> first403 option
   \<Rightarrow> account list \<Rightarrow> response list \<Rightarrow> trace" where
  "attempt env k acc excludeCookieIds retryCount endpointIndex firstError403Type store responses =
     (if totalEndpoints env = 0 then stop k [] (Thrown (JsError TypeError)) store
      else
        (\<lambda>t. t\<lparr>attempts := (cookie_id acc, min endpointIndex (totalEndpoints env - 1)) # attempts t\<rparr>)
        (case responses of
           [] \<Rightarrow> stop k [] Awaiting store
         | NetworkFailure # rest \<Rightarrow> stop k [] (Thrown (JsError (Error ''fetch failed''))) store
         | Response st responseText records # rest \<Rightarrow>
             if 200 \<le> st \<and> st \<le> 299 then stop k (processRecords (js env) records []) Returned store
             else if st = 403 then
               (let cur = currentFirstError403Type firstError403Type responseText in
                if endpointIndex + 1 < totalEndpoints env then
                  attempt env k acc excludeCookieIds retryCount (endpointIndex + 1) (Some cur) store rest
                else if cur \<noteq> PERMISSION_DENIED then
                  (case updateAccountStatus store (cookie_id acc) 0 of
                     Inl e \<Rightarrow> stop k [] (Thrown (JsError e)) store
                   | Inr store' \<Rightarrow>
                       stop k [ErrorEvent ''ALL_ENDPOINTS_403'' (Some responseText)]
                         (Thrown (ApiError ''ALL_ENDPOINTS_403'' 403 responseText)) store')
                else
                  stop k [ErrorEvent ''ALL_ENDPOINTS_403'' (Some responseText)]
                    (Thrown (ApiError ''ALL_ENDPOINTS_403'' 403 responseText)) store)
             else if st = 400 then
               (if quotaMarked responseText then
                  (case selectAccount env store (excludeCookieIds @ [cookie_id acc]) of
                     (Inl e, store') \<Rightarrow> quotaStop k store'
                   | (Inr newAccount, store') \<Rightarrow>
                       afterQuotaRetry k
                         (attempt env k newAccount (excludeCookieIds @ [cookie_id acc]) 0 0 None store' rest))
                else if includesText responseText ''image exceeds 5 MB maximum'' then
                  stop k [ErrorEvent ''IMAGE_INPUT_EXCEEDED_MAXIMUM_5_MB'' None]
                    (Thrown (ApiError ''IMAGE_INPUT_EXCEEDED_MAXIMUM_5_MB'' 400
                               ''IMAGE_INPUT_EXCEEDED_MAXIMUM_5_MB'')) store
                else if includesText responseText ''RESOURCE_PROJECT_INVALID'' then
                  (case updateAccountStatus store (cookie_id acc) 0 of
                     Inl e \<Rightarrow> stop k [] (Thrown (JsError e)) store
                   | Inr disabled \<Rightarrow>
                       (case selectAccount env disabled (excludeCookieIds @ [cookie_id acc]) of
                          (Inl e, store') \<Rightarrow>
                            afterProjectRetry k (stop k [] (Thrown (JsError e)) store')
                        | (Inr newAccount, store') \<Rightarrow>
                            afterProjectRetry k
                              (attempt env k newAccount (excludeCookieIds @ [cookie_id acc]) 0 0 None
                                 store' rest)))
                else if includesText responseText ''INVALID_ARGUMENT''
                        \<or> includesText responseText ''invalid_request_error'' then
                  stop k [ErrorEvent responseText (Some responseText)]
                    (Thrown (ApiError responseText st responseText)) store
                else
                  (case updateAccountStatus store (cookie_id acc) 0 of
                     Inl e \<Rightarrow> stop k [] (Thrown (JsError e)) store
                   | Inr store' \<Rightarrow>
                       stop k [ErrorEvent responseText (Some responseText)]
                         (Thrown (ApiError responseText st responseText)) store'))
             else if st = 429 \<or> quotaMarked responseText then
               (if retryCount \<ge> MAX_RETRY_COUNT k then quotaStop k store
                else
                  (case selectAccount env store (excludeCookieIds @ [cookie_id acc]) of
                     (Inl e, store') \<Rightarrow> quotaStop k store'
                   | (Inr newAccount, store') \<Rightarrow>
                       afterQuotaRetry k
                         (attempt env k newAccount (excludeCookieIds @ [cookie_id acc])
                            (retryCount + 1) 0 None store' rest)))
             else if st = 500 \<and> includesText responseText ''Internal error encountered'' then
               stop k [ErrorEvent ''ILLEGAL_PROMPT'' (Some responseText)]
                 (Thrown (ApiError ''ILLEGAL_PROMPT'' 500 ''ILLEGAL_PROMPT'')) store
             else
               stop k [ErrorEvent responseText (Some responseText)]
                 (Thrown (ApiError responseText st responseText)) store))"

declare attempt.simps [simp del]

text \<open>The entry points: an account is selected first when none is given.\<close>

definition generate ::
  "orchestrator_env \<Rightarrow> kind \<Rightarrow> account option \<Rightarrow> string list \<Rightarrow> nat \<Rightarrow> nat \<Rightarrow> first403 option
   \<Rightarrow> account list \<Rightarrow> response list \<Rightarrow> trace" where
  "generate env k account excludeCookieIds retryCount endpointIndex firstError403Type store responses =
     (case account of
        Some acc \<Rightarrow>
          attempt env k acc excludeCookieIds retryCount endpointIndex firstError403Type store responses
      | None \<Rightarrow>
          (case selectAccount env store excludeCookieIds of
             (Inl e, store') \<Rightarrow> stop k [] (Thrown (JsError e)) store'
           | (Inr acc, store') \<Rightarrow>
               attempt env k acc excludeCookieIds retryCount endpointIndex firstError403Type store'
                 responses))"

definition generateResponse ::
  "orchestrator_env \<Rightarrow> account option \<Rightarrow> string list \<Rightarrow> nat \<Rightarrow> nat \<Rightarrow> first403 option
   \<Rightarrow> account list \<Rightarrow> response list \<Rightarrow> trace" where
  "generateResponse env = generate env Chat"

definition generateImage ::
  "orchestrator_env \<Rightarrow> account option \<Rightarrow> string list \<Rightarrow> nat \<Rightarrow> nat \<Rightarrow> first403 option
   \<Rightarrow> account list \<Rightarrow> response list \<Rightarrow> trace" where
  "generateImage env = generate env Image"

text \<open>The account table after \<^verbatim>\<open>updateAccountStatus(cookie_id, 0)\<close> on an existing account.\<close>

definition disableAccount :: "account list \<Rightarrow> string \<Rightarrow> account list" where
  "disableAccount store cid = map (\<lambda>a. if cookie_id a = cid then a\<lparr>status := 0\<rparr> else a) store"

section \<open>The shared quota pool\<close>

text \<open>
  A row of \<^verbatim>\<open>user_shared_quota_pool\<close>: the pool of one user for one model. The columns
  \<^verbatim>\<open>quota\<close> and \<^verbatim>\<open>max_quota\<close> default to 0 in the schema.
\<close>

record pool_row = pool +
  pool_user :: string
  pool_model :: string

definition newPoolRow :: "string \<Rightarrow> string \<Rightarrow> pool_row" where
  "newPoolRow uid model_name =
     \<lparr>quota = 0, max_quota = 0, pool_user = uid, pool_model = model_name\<rparr>"

definition enabledSharedCount :: "account list \<Rightarrow> string \<Rightarrow> nat" where
  "enabledSharedCount accounts uid =
     length (filter (\<lambda>a. user_id a = uid \<and> is_shared a = 1 \<and> status a = 1) accounts)"

text \<open>
  Modelled from the spec: \<^verbatim>\<open>quotaService.recoverAllUserSharedQuotas\<close> (the spec's
  \<^verbatim>\<open>recoverAll\<close>) is not in the sources; only its caller, the recovery script, is. The
  spec: for every (user, model) pool, add \<^verbatim>\<open>max_quota \<times> 0.2\<close>, capped at
  \<^verbatim>\<open>max_quota\<close>; returns the count of rows touched; the ceiling is 2 \<times> the number of the
  user's enabled shared credentials and is recomputed by the recovery pass (a pool with
  no shared credential recomputes to 0).
\<close>

definition poolCeiling :: "account list \<Rightarrow> string \<Rightarrow> real" where
  "poolCeiling accounts uid = 2 * real (enabledSharedCount accounts uid)"

definition recoverRow :: "account list \<Rightarrow> pool_row \<Rightarrow> pool_row" where
  "recoverRow accounts p =
     (let ceiling = poolCeiling accounts (pool_user p)
      in p\<lparr>quota := min (quota p + ceiling * 0.2) ceiling, max_quota := ceiling\<rparr>)"

definition recoverAll :: "account list \<Rightarrow> pool_row list \<Rightarrow> pool_row list \<times> nat" where
  "recoverAll accounts pools = (map (recoverRow accounts) pools, length pools)"

text \<open>
  Modelled from the spec: \<^verbatim>\<open>quotaService.recordQuotaConsumption\<close> is not in the sources.
  The spec: if the tier is shared, debit \<^verbatim>\<open>max(before - after, 0)\<close> from the user's pool
  for that model, floored at 0; dedicated usage never debits the pool. (The consumption
  log that the function also appends to is left out.)
\<close>

definition recordConsumption ::
  "pool_row list \<Rightarrow> string \<Rightarrow> string \<Rightarrow> real \<Rightarrow> real \<Rightarrow> nat \<Rightarrow> pool_row list" where
  "recordConsumption pools uid model_name before after shared =
     (if shared = 1 then
        map (\<lambda>p. if pool_user p = uid \<and> pool_model p = model_name
                  then p\<lparr>quota := max (quota p - max (before - after) 0) 0\<rparr> else p) pools
      else pools)"

text \<open>
  Modelled from the spec: \<^verbatim>\<open>quotaService.addUserSharedQuota\<close> is not in the sources. The
  spec gives the ceiling (2 per enabled shared credential); the comment at the call in
  \<^verbatim>\<open>handleCallback\<close> gives the increments: the quota grows by twice the account's
  remaining fraction, the ceiling by 2. A user without a row for the model gets one.
\<close>

definition addUserSharedQuota :: "pool_row list \<Rightarrow> string \<Rightarrow> string \<Rightarrow> real \<Rightarrow> pool_row list" where
  "addUserSharedQuota pools uid model_name accountQuota =
     (if \<exists>p \<in> set pools. pool_user p = uid \<and> pool_model p = model_name then
        map (\<lambda>p. if pool_user p = uid \<and> pool_model p = model_name
                  then p\<lparr>quota := quota p + accountQuota * 2, max_quota := max_quota p + 2\<rparr> else p) pools
      else pools @ [(newPoolRow uid model_name)\<lparr>quota := accountQuota * 2, max_quota := 2\<rparr>])"

text \<open>
  The end of \<^verbatim>\<open>OAuthService.handleCallback\<close>: the account is created enabled, and for a
  shared account the pool of its owner is raised for every model that the quota
  endpoint returned, with the model's \<^verbatim>\<open>remainingFraction\<close> (1.0 when it is missing).
  When the quota could not be fetched the list of models is empty.
\<close>

definition createAccount :: "account list \<Rightarrow> account \<Rightarrow> account list" where
  "createAccount accounts a = accounts @ [a\<lparr>status := 1\<rparr>]"

fun raisePools :: "pool_row list \<Rightarrow> string \<Rightarrow> (string \<times> real option) list \<Rightarrow> pool_row list" where
  "raisePools pools uid [] = pools"
| "raisePools pools uid ((modelName, remainingFraction) # models) =
     raisePools
       (addUserSharedQuota pools uid modelName (case remainingFraction of None \<Rightarrow> 1 | Some q \<Rightarrow> q))
       uid models"

definition handleCallback ::
  "account list \<Rightarrow> pool_row list \<Rightarrow> account \<Rightarrow> (string \<times> real option) list
   \<Rightarrow> account list \<times> pool_row list" where
  "handleCallback accounts pools a mergedModels =
     (createAccount accounts a,
      if is_shared a = 1 then raisePools pools (user_id a) mergedModels else pools)"

text \<open>The two properties of the pool that the spec states.\<close>

definition quotaInBounds :: "pool_row \<Rightarrow> bool" where
  "quotaInBounds p = (0 \<le> quota p \<and> quota p \<le> max_quota p)"

definition ceilingInSync :: "account list \<Rightarrow> pool_row \<Rightarrow> bool" where
  "ceilingInSync accounts p = (max_quota p = 2 * real (enabledSharedCount accounts (pool_user p)))"





section \<open>Test fixtures\<close>

text \<open>
  A finite fragment of the built-ins, enough to run the converters on the examples
  below: \<^verbatim>\<open>JSON.parse\<close> and \<^verbatim>\<open>JSON.stringify\<close> on one arguments object.
\<close>

definition demoArgsText :: string where
  \<open>demoArgsText = ''{"city":"Paris"}''\<close>

definition demoArgs :: jsval where
  "demoArgs = Obj [(''city'', Str ''Paris'')]"

definition demoBuiltins :: builtins where
  "demoBuiltins =
     \<lparr>json_parse = (\<lambda>s. if s = demoArgsText then Some demoArgs else None),
      json_stringify = (\<lambda>v. if v = demoArgs then Some demoArgsText else None),
      num_to_string = (\<lambda>n. []),
      match_data_url = (\<lambda>s. None),
      strip_image_markup = (\<lambda>s. s)\<rparr>"















text \<open>
  Three accounts of user \<^verbatim>\<open>u1\<close>: a dedicated one whose token has expired, a dedicated
  one with a fresh token, and a shared one. Every model is available, every pool holds
  quota, and the token endpoint refuses every refresh.
\<close>

definition demoDedicatedExpired :: account where
  "demoDedicatedExpired =
     \<lparr>cookie_id = ''d1'', user_id = ''u1'', is_shared = 0, access_token = ''t1'',
      refresh_token = ''r1'', expires_at = 1000, status = 1, need_refresh = 0, project_id_0 = ''p1''\<rparr>"

definition demoDedicated :: account where
  "demoDedicated =
     \<lparr>cookie_id = ''d2'', user_id = ''u1'', is_shared = 0, access_token = ''t2'',
      refresh_token = ''r2'', expires_at = 9000000, status = 1, need_refresh = 0, project_id_0 = ''p2''\<rparr>"

definition demoShared :: account where
  "demoShared =
     \<lparr>cookie_id = ''s1'', user_id = ''u2'', is_shared = 1, access_token = ''t3'',
      refresh_token = ''r3'', expires_at = 9000000, status = 1, need_refresh = 0, project_id_0 = ''p3''\<rparr>"

definition demoEnv :: selection_env where
  "demoEnv =
     \<lparr>now = 5000,
      isModelAvailable = (\<lambda>c m. True),
      getQuotaSharedModels = (\<lambda>m. [m]),
      getUserModelSharedQuotaPool = (\<lambda>u m. Some \<lparr>quota = 1, max_quota = 2\<rparr>),
      refreshAccessToken = (\<lambda>t. RefreshFailed)\<rparr>"

definition demoStore :: "account list" where
  "demoStore = [demoDedicatedExpired, demoDedicated, demoShared]"

definition demoStoreAfter :: "account list" where
  "demoStoreAfter = [demoDedicatedExpired\<lparr>status := 0, need_refresh := 1\<rparr>, demoDedicated, demoShared]"



text \<open>
  An orchestrator with two endpoints whose selection is \<^verbatim>\<open>getAvailableAccount\<close> for user
  \<^verbatim>\<open>u1\<close> with the default preference, over a table of one dedicated and one shared
  account with fresh tokens.
\<close>

definition demoOrchestrator :: orchestrator_env where
  "demoOrchestrator =
     \<lparr>selectAccount = (\<lambda>store excl. getAvailableAccount demoEnv (\<lambda>n. 0) store ''u1'' ''m'' None excl),
      totalEndpoints = 2,
      js = demoBuiltins\<rparr>"

definition demoStore2 :: "account list" where
  "demoStore2 = [demoDedicated, demoShared]"

definition demoPermissionBody :: string where
  "demoPermissionBody = ''The caller does not have permission''"



definition demoPoolOne :: pool_row where
  "demoPoolOne = \<lparr>quota = 1, max_quota = 2, pool_user = ''u2'', pool_model = ''m''\<rparr>"

section \<open>Proofs\<close>

lemma bindE_Inr_iff: "bindE m f = Inr y \<longleftrightarrow> (\<exists>x. m = Inr x \<and> f x = Inr y)"
  by (cases m) (auto simp: bindE_def)

lemma bindE_Inr [simp]: "bindE (Inr x) f = f x"
  by (simp add: bindE_def)

lemma bindE_Inl [simp]: "bindE (Inl e) f = Inl e"
  by (simp add: bindE_def)



lemma modelParts_Nil [simp]: "modelParts [] = {}"
  by (simp add: modelParts_def)


lemma modelParts_single [simp]:
  "modelParts [am] = (if role am = ''model'' then set (parts am) else {})"
  by (auto simp: modelParts_def)


























lemma normalize_isObjectType:
  "normalizeJsonSchema v = Inr v' \<Longrightarrow> isObjectType v' = isObjectType v"
  by (cases v) (auto simp: bindE_Inr_iff)







declare drainBuffer.simps [simp del]















lemma sameRow_refl: "sameRow a a"
  by (simp add: sameRow_def)


lemma list_all2_sameRow_refl: "list_all2 sameRow xs xs"
  by (simp add: list_all2_refl sameRow_refl)


lemma list_all2_map_sameRow: "(\<And>a. sameRow a (f a)) \<Longrightarrow> list_all2 sameRow xs (map f xs)"
  by (simp add: list_all2_map2 list_all2_refl)

lemma refreshIfExpired_Kept:
  assumes "refreshIfExpired E store acc = Kept acc' store'"
  shows "list_all2 sameRow store store' \<and> is_shared acc' = is_shared acc"
proof (cases "isTokenExpired (now E) acc")
  case False
  with assms show ?thesis by (simp add: refreshIfExpired_def list_all2_sameRow_refl)
next
  case True
  with assms obtain token expires where
    "store' = map (\<lambda>a. if cookie_id a = cookie_id acc then a\<lparr>access_token := token, expires_at := expires\<rparr> else a) store"
    and "acc' = acc\<lparr>access_token := token, expires_at := expires\<rparr>"
    by (auto simp: refreshIfExpired_def updateAccountToken_def
        split: refresh_result.splits sum.splits if_splits)
  then show ?thesis
    by (auto intro!: list_all2_map_sameRow simp: sameRow_def)
qed





lemma pickAccount_available:
  assumes "pickAccount E u store uid model_name pref excl = Inr a"
  shows "availableFor E uid model_name a"
  using pickAccount_member [OF assms] selectedPool_subset by fastforce


lemma getAvailableAccount_Inl:
  "pickAccount E (rnd 0) store uid model_name pref excl = Inl e \<Longrightarrow>
   getAvailableAccount E rnd store uid model_name pref excl = (Inl e, store)"
  by (subst getAvailableAccount.simps) simp

lemma getAvailableAccount_Kept:
  "pickAccount E (rnd 0) store uid model_name pref excl = Inr a \<Longrightarrow>
   refreshIfExpired E store a = Kept a' s1 \<Longrightarrow>
   getAvailableAccount E rnd store uid model_name pref excl = (Inr a', s1)"
  by (subst getAvailableAccount.simps) simp

lemma getAvailableAccount_Threw:
  "pickAccount E (rnd 0) store uid model_name pref excl = Inr a \<Longrightarrow>
   refreshIfExpired E store a = Threw e \<Longrightarrow>
   getAvailableAccount E rnd store uid model_name pref excl = (Inl e, store)"
  by (subst getAvailableAccount.simps) simp

lemma getAvailableAccount_Dropped:
  "pickAccount E (rnd 0) store uid model_name pref excl = Inr a \<Longrightarrow>
   refreshIfExpired E store a = Dropped s1 \<Longrightarrow>
   getAvailableAccount E rnd store uid model_name pref excl
     = getAvailableAccount E (\<lambda>n. rnd (Suc n)) s1 uid model_name pref (excl @ [cookie_id a])"
  by (subst getAvailableAccount.simps) simp


text \<open>
  Claim C4. Selection returns a shared account only if some model of the quota-sharing
  group of the requested model has strictly positive quota in the user's shared pool.
  Hence, when the pool is exhausted for the whole group, every shared account is passed
  over, whatever its own quota.
\<close>

theorem shared_requires_pool_quota:
  assumes "getAvailableAccount E rnd store uid model_name pref excl = (Inr acc, store')"
    and "is_shared acc = 1"
  shows "\<exists>sharedModel \<in> set (getQuotaSharedModels E model_name).
           \<exists>userQuota. getUserModelSharedQuotaPool E uid sharedModel = Some userQuota \<and>
                        quota userQuota > 0"
  using assms
proof (induction E rnd store uid model_name pref excl arbitrary: acc store'
    rule: getAvailableAccount.induct)
  case (1 E rnd store uid model_name pref excl)
  show ?case
  proof (cases "pickAccount E (rnd 0) store uid model_name pref excl")
    case (Inl e)
    from "1.prems"(1) show ?thesis
      unfolding getAvailableAccount_Inl [where rnd = rnd, OF Inl] by simp
  next
    case (Inr a)
    show ?thesis
    proof (cases "refreshIfExpired E store a")
      case (Kept a' s1)
      from "1.prems"(1) have eq: "acc = a'"
        unfolding getAvailableAccount_Kept [where rnd = rnd, OF Inr Kept] by simp
      from refreshIfExpired_Kept [OF Kept] eq "1.prems"(2) have "is_shared a = 1" by simp
      with pickAccount_available [OF Inr] have "hasQuota E uid model_name"
        by (simp add: availableFor_def)
      then show ?thesis
        by (auto simp: hasQuota_def split: option.splits)
    next
      case (Dropped s1)
      from "1.prems"(1) have rec:
        "getAvailableAccount E (\<lambda>n. rnd (Suc n)) s1 uid model_name pref (excl @ [cookie_id a]) = (Inr acc, store')"
        unfolding getAvailableAccount_Dropped [where rnd = rnd, OF Inr Dropped] .
      from "1.IH" [OF Inr Dropped rec "1.prems"(2)] show ?thesis .
    next
      case (Threw e)
      from "1.prems"(1) show ?thesis
        unfolding getAvailableAccount_Threw [where rnd = rnd, OF Inr Threw] by simp
    qed
  qed
qed

lemmas demo_account_defs =
  demoStore_def demoStoreAfter_def demoDedicatedExpired_def demoDedicated_def demoShared_def demoEnv_def

lemmas selection_defs =
  pickAccount_def candidateAccounts_def getAvailableAccounts_def selectedPool_def availableFor_def
  hasQuota_def refreshIfExpired_def isTokenExpired_def markAccountNeedRefresh_def
  updateAccountStatus_def updateAccountToken_def accountExists_def

















lemma demo_shared_pick:
  "pickAccount demoEnv 0 demoStore ''u1'' ''m'' (Some 1) [] = Inr demoShared"
  by (simp add: selection_defs demo_account_defs Let_def)

lemma demo_shared_refresh:
  "refreshIfExpired demoEnv demoStore demoShared = Kept demoShared demoStore"
  by (simp add: selection_defs demo_account_defs Let_def)

theorem shared_requires_pool_quota_witness:
  "getAvailableAccount demoEnv (\<lambda>n. 0) demoStore ''u1'' ''m'' (Some 1) [] = (Inr demoShared, demoStore) \<and>
   is_shared demoShared = 1 \<and>
   (\<exists>sharedModel \<in> set (getQuotaSharedModels demoEnv ''m'').
      \<exists>userQuota. getUserModelSharedQuotaPool demoEnv ''u1'' sharedModel = Some userQuota \<and>
                   quota userQuota > 0)"
proof -
  have 1: "getAvailableAccount demoEnv (\<lambda>n. 0) demoStore ''u1'' ''m'' (Some 1) [] = (Inr demoShared, demoStore)"
    using getAvailableAccount_Kept [where rnd = "\<lambda>n. 0", OF demo_shared_pick demo_shared_refresh] .
  have 2: "is_shared demoShared = 1" by (simp add: demoShared_def)
  from shared_requires_pool_quota [OF 1 2] 1 2 show ?thesis by simp
qed

lemma attempt_403_next:
  assumes "endpointIndex + 1 < totalEndpoints env"
  shows "attempt env k acc excl retryCount endpointIndex f store (Response 403 body records # rest)
    = (attempt env k acc excl retryCount (endpointIndex + 1)
         (Some (currentFirstError403Type f body)) store rest)
      \<lparr>attempts := (cookie_id acc, endpointIndex)
          # attempts (attempt env k acc excl retryCount (endpointIndex + 1)
              (Some (currentFirstError403Type f body)) store rest)\<rparr>"
proof -
  from assms have "min endpointIndex (totalEndpoints env - 1) = endpointIndex" by simp
  with assms show ?thesis
    by (subst attempt.simps) (simp add: Let_def)
qed

lemma attempt_403_last:
  assumes "\<not> endpointIndex + 1 < totalEndpoints env" and "totalEndpoints env \<noteq> 0"
    and "accountExists store (cookie_id acc)"
  shows "attempt env k acc excl retryCount endpointIndex f store (Response 403 body records # rest)
    = \<lparr>events = (case k of Chat \<Rightarrow> [ErrorEvent ''ALL_ENDPOINTS_403'' (Some body)] | Image \<Rightarrow> []),
       attempts = [(cookie_id acc, totalEndpoints env - 1)],
       outcome = Thrown (ApiError ''ALL_ENDPOINTS_403'' 403 body),
       final_store = (if currentFirstError403Type f body = PERMISSION_DENIED then store
                      else disableAccount store (cookie_id acc))\<rparr>"
proof -
  from assms have "min endpointIndex (totalEndpoints env - 1) = totalEndpoints env - 1" by simp
  with assms show ?thesis
    by (subst attempt.simps)
      (simp add: Let_def stop_def updateAccountStatus_def disableAccount_def)
qed

lemma currentFirstError403Type_Some [simp]:
  "currentFirstError403Type (Some t) body = t"
  by (simp add: currentFirstError403Type_def)

lemma rotation:
  assumes "accountExists store (cookie_id acc)"
  shows "bs \<noteq> [] \<Longrightarrow> endpointIndex + length bs = totalEndpoints env \<Longrightarrow>
    attempt env k acc excl retryCount endpointIndex f store (map (\<lambda>b. Response 403 b []) bs @ rest)
    = \<lparr>events = (case k of Chat \<Rightarrow> [ErrorEvent ''ALL_ENDPOINTS_403'' (Some (last bs))] | Image \<Rightarrow> []),
       attempts = map (Pair (cookie_id acc)) [endpointIndex ..< totalEndpoints env],
       outcome = Thrown (ApiError ''ALL_ENDPOINTS_403'' 403 (last bs)),
       final_store = (if currentFirstError403Type f (hd bs) = PERMISSION_DENIED then store
                      else disableAccount store (cookie_id acc))\<rparr>"
proof (induction bs arbitrary: endpointIndex f)
  case Nil
  then show ?case by simp
next
  case (Cons b bs)
  show ?case
  proof (cases "bs = []")
    case True
    with Cons.prems have last: "\<not> endpointIndex + 1 < totalEndpoints env" "totalEndpoints env \<noteq> 0"
      and e: "endpointIndex = totalEndpoints env - 1" by auto
    have "[endpointIndex ..< totalEndpoints env] = [totalEndpoints env - 1]"
      using e last(2) by (simp add: upt_rec)
    with True attempt_403_last [OF last assms] show ?thesis by (cases k) simp_all
  next
    case False
    with Cons.prems have nxt: "endpointIndex + 1 < totalEndpoints env"
      and len: "(endpointIndex + 1) + length bs = totalEndpoints env"
      by (cases bs, auto)+
    have "[endpointIndex ..< totalEndpoints env] = endpointIndex # [endpointIndex + 1 ..< totalEndpoints env]"
      using nxt by (simp add: upt_rec)
    with False Cons.IH [OF False len, of "Some (currentFirstError403Type f b)"]
      attempt_403_next [OF nxt]
    show ?thesis by (cases k) simp_all
  qed
qed

lemma attempt_ok:
  assumes "totalEndpoints env \<noteq> 0" and "200 \<le> st \<and> st \<le> 299"
  shows "attempt env k acc excl retryCount endpointIndex f store (Response st body records # rest)
    = (stop k (processRecords (js env) records []) Returned store)
      \<lparr>attempts := [(cookie_id acc, min endpointIndex (totalEndpoints env - 1))]\<rparr>"
  using assms by (subst attempt.simps) (simp add: stop_def)

lemma attempt_400_quota:
  assumes "totalEndpoints env \<noteq> 0" and "quotaMarked body"
    and "selectAccount env store (excl @ [cookie_id acc]) = (Inr newAccount, store')"
  shows "attempt env k acc excl retryCount endpointIndex f store (Response 400 body records # rest)
    = (afterQuotaRetry k (attempt env k newAccount (excl @ [cookie_id acc]) 0 0 None store' rest))
      \<lparr>attempts := (cookie_id acc, min endpointIndex (totalEndpoints env - 1))
          # attempts (attempt env k newAccount (excl @ [cookie_id acc]) 0 0 None store' rest)\<rparr>"
proof -
  have "attempts (afterQuotaRetry k t) = attempts t" for t
    by (simp add: afterQuotaRetry_def split: outcome.splits kind.splits)
  with assms show ?thesis
    by (subst attempt.simps) simp
qed

lemma attempts_afterQuotaRetry [simp]: "attempts (afterQuotaRetry k t) = attempts t"
  by (simp add: afterQuotaRetry_def split: outcome.splits kind.splits)

lemma final_store_afterQuotaRetry [simp]: "final_store (afterQuotaRetry k t) = final_store t"
  by (simp add: afterQuotaRetry_def split: outcome.splits kind.splits)

lemma attempt_quota_ceiling:
  assumes "totalEndpoints env \<noteq> 0" and "\<not> (200 \<le> st \<and> st \<le> 299)" and "st \<noteq> 403" and "st \<noteq> 400"
    and "st = 429 \<or> quotaMarked body" and "retryCount \<ge> MAX_RETRY_COUNT k"
  shows "attempt env k acc excl retryCount endpointIndex f store (Response st body records # rest)
    = (quotaStop k store)\<lparr>attempts := [(cookie_id acc, min endpointIndex (totalEndpoints env - 1))]\<rparr>"
  using assms by (subst attempt.simps) (auto simp: quotaStop_def stop_def split: kind.splits)

lemma attempt_quota_no_account:
  assumes "totalEndpoints env \<noteq> 0" and "\<not> (200 \<le> st \<and> st \<le> 299)" and "st \<noteq> 403" and "st \<noteq> 400"
    and "st = 429 \<or> quotaMarked body" and "retryCount < MAX_RETRY_COUNT k"
    and "selectAccount env store (excl @ [cookie_id acc]) = (Inl e, store')"
  shows "attempt env k acc excl retryCount endpointIndex f store (Response st body records # rest)
    = (quotaStop k store')\<lparr>attempts := [(cookie_id acc, min endpointIndex (totalEndpoints env - 1))]\<rparr>"
  using assms by (subst attempt.simps) (auto simp: quotaStop_def stop_def split: kind.splits)

lemma attempt_quota_retry:
  assumes "totalEndpoints env \<noteq> 0" and "\<not> (200 \<le> st \<and> st \<le> 299)" and "st \<noteq> 403" and "st \<noteq> 400"
    and "st = 429 \<or> quotaMarked body" and "retryCount < MAX_RETRY_COUNT k"
    and "selectAccount env store (excl @ [cookie_id acc]) = (Inr newAccount, store')"
  shows "attempt env k acc excl retryCount endpointIndex f store (Response st body records # rest)
    = (afterQuotaRetry k
         (attempt env k newAccount (excl @ [cookie_id acc]) (retryCount + 1) 0 None store' rest))
      \<lparr>attempts := (cookie_id acc, min endpointIndex (totalEndpoints env - 1))
          # attempts (attempt env k newAccount (excl @ [cookie_id acc]) (retryCount + 1) 0 None store' rest)\<rparr>"
  using assms by (subst attempt.simps) auto

lemma attempt_Nil:
  "totalEndpoints env \<noteq> 0 \<Longrightarrow>
   attempt env k acc excl retryCount endpointIndex f store []
    = (stop k [] Awaiting store)\<lparr>attempts := [(cookie_id acc, min endpointIndex (totalEndpoints env - 1))]\<rparr>"
  by (subst attempt.simps) (simp add: stop_def)

lemma retry_bound:
  assumes "totalEndpoints env \<noteq> 0"
  shows "(\<forall>r \<in> set responses. \<exists>body records. r = Response 429 body records) \<Longrightarrow>
    length (attempts (attempt env k acc excl retryCount endpointIndex f store responses))
      \<le> Suc (MAX_RETRY_COUNT k - retryCount)"
proof (induction responses arbitrary: acc excl retryCount endpointIndex f store)
  case Nil
  then show ?case using assms by (simp add: attempt_Nil)
next
  case (Cons r rest)
  then obtain body records where r: "r = Response 429 body records" by auto
  have cls: "\<not> (200 \<le> (429::nat) \<and> (429::nat) \<le> 299)" "(429::nat) \<noteq> 403" "(429::nat) \<noteq> 400"
    "(429::nat) = 429 \<or> quotaMarked body" by simp_all
  show ?case
  proof (cases "retryCount \<ge> MAX_RETRY_COUNT k")
    case True
    from attempt_quota_ceiling [OF assms cls True] r show ?thesis by simp
  next
    case False
    then have lt: "retryCount < MAX_RETRY_COUNT k" by simp
    obtain res store' where sel: "selectAccount env store (excl @ [cookie_id acc]) = (res, store')"
      by (cases "selectAccount env store (excl @ [cookie_id acc])")
    show ?thesis
    proof (cases res)
      case (Inl e)
      from attempt_quota_no_account [OF assms cls lt sel [unfolded Inl]] r show ?thesis by simp
    next
      case (Inr newAccount)
      from Cons.prems have "\<forall>r \<in> set rest. \<exists>body records. r = Response 429 body records" by simp
      from Cons.IH [OF this, of newAccount "excl @ [cookie_id acc]" "retryCount + 1" 0 None store']
      have "length (attempts (attempt env k newAccount (excl @ [cookie_id acc]) (retryCount + 1) 0 None store' rest))
          \<le> Suc (MAX_RETRY_COUNT k - (retryCount + 1))" .
      with lt attempt_quota_retry [OF assms cls lt sel [unfolded Inr]] r show ?thesis by simp
    qed
  qed
qed

lemma generateResponse_Some:
  "generateResponse env (Some acc) excl retryCount endpointIndex f store responses
     = attempt env Chat acc excl retryCount endpointIndex f store responses"
  by (simp add: generateResponse_def generate_def)

lemma generateImage_Some:
  "generateImage env (Some acc) excl retryCount endpointIndex f store responses
     = attempt env Image acc excl retryCount endpointIndex f store responses"
  by (simp add: generateImage_def generate_def)

lemma includes_permission: "includesText demoPermissionBody ''The caller does not have permission''"
  by (simp add: demoPermissionBody_def)

lemma not_includes_permission: "\<not> includesText ''Forbidden'' ''The caller does not have permission''"
  by simp

lemma demo_select_shared:
  "selectAccount demoOrchestrator demoStore2 ([] @ [cookie_id demoDedicated]) = (Inr demoShared, demoStore2)"
proof -
  have p: "pickAccount demoEnv 0 demoStore2 ''u1'' ''m'' None [''d2''] = Inr demoShared"
    by (simp add: selection_defs demo_account_defs demoStore2_def Let_def)
  have r: "refreshIfExpired demoEnv demoStore2 demoShared = Kept demoShared demoStore2"
    by (simp add: selection_defs demo_account_defs demoStore2_def Let_def)
  from getAvailableAccount_Kept [where rnd = "\<lambda>n. 0", OF p r] show ?thesis
    by (simp add: demoOrchestrator_def demoDedicated_def)
qed

lemma demo_endpoints: "totalEndpoints demoOrchestrator \<noteq> 0" "totalEndpoints demoOrchestrator = 2"
  by (simp_all add: demoOrchestrator_def)

lemma demo_shared_exists: "accountExists demoStore2 (cookie_id demoShared)"
  by (simp add: accountExists_def demoStore2_def)

text \<open>
  Claim C1, as the code has it. A 403 with endpoints left makes the call repeat itself
  with the same account, exclusion list and retry count on the next endpoint index,
  carrying the type of the first 403. Starting from a call with a fresh record (endpoint
  index 0, no first 403), as every call for a newly selected account is, a 403 from each
  configured endpoint ends with the error event \<^verbatim>\<open>ALL_ENDPOINTS_403\<close> and the matching
  \<^verbatim>\<open>ApiError\<close>; the account is disabled exactly when the body of the first of these
  403 responses does not contain \<^verbatim>\<open>The caller does not have permission\<close>.
\<close>

theorem endpoint_rotation_on_403:
  assumes "accountExists store (cookie_id acc)"
  shows "(\<forall>endpointIndex f body records rest.
            endpointIndex + 1 < totalEndpoints env \<longrightarrow>
            generateResponse env (Some acc) excl retryCount endpointIndex f store
                (Response 403 body records # rest)
              = (generateResponse env (Some acc) excl retryCount (endpointIndex + 1)
                   (Some (currentFirstError403Type f body)) store rest)
                \<lparr>attempts := (cookie_id acc, endpointIndex)
                    # attempts (generateResponse env (Some acc) excl retryCount (endpointIndex + 1)
                        (Some (currentFirstError403Type f body)) store rest)\<rparr>) \<and>
         (\<forall>bs rest.
            bs \<noteq> [] \<and> length bs = totalEndpoints env \<longrightarrow>
            generateResponse env (Some acc) excl retryCount 0 None store
                (map (\<lambda>b. Response 403 b []) bs @ rest)
              = \<lparr>events = [ErrorEvent ''ALL_ENDPOINTS_403'' (Some (last bs))],
                 attempts = map (Pair (cookie_id acc)) [0 ..< totalEndpoints env],
                 outcome = Thrown (ApiError ''ALL_ENDPOINTS_403'' 403 (last bs)),
                 final_store =
                   (if includesText (hd bs) ''The caller does not have permission'' then store
                    else disableAccount store (cookie_id acc))\<rparr>)"
proof (intro conjI allI impI)
  fix endpointIndex f body records rest
  assume "endpointIndex + 1 < totalEndpoints env"
  from attempt_403_next [OF this, of Chat acc excl retryCount f store body records rest]
  show "generateResponse env (Some acc) excl retryCount endpointIndex f store
                (Response 403 body records # rest)
              = (generateResponse env (Some acc) excl retryCount (endpointIndex + 1)
                   (Some (currentFirstError403Type f body)) store rest)
                \<lparr>attempts := (cookie_id acc, endpointIndex)
                    # attempts (generateResponse env (Some acc) excl retryCount (endpointIndex + 1)
                        (Some (currentFirstError403Type f body)) store rest)\<rparr>"
    by (simp only: generateResponse_Some)
next
  fix bs :: "string list" and rest
  assume a: "bs \<noteq> [] \<and> length bs = totalEndpoints env"
  then have "0 + length bs = totalEndpoints env" by simp
  from rotation [OF assms _ this, of Chat excl retryCount None rest] a
  show "generateResponse env (Some acc) excl retryCount 0 None store
                (map (\<lambda>b. Response 403 b []) bs @ rest)
              = \<lparr>events = [ErrorEvent ''ALL_ENDPOINTS_403'' (Some (last bs))],
                 attempts = map (Pair (cookie_id acc)) [0 ..< totalEndpoints env],
                 outcome = Thrown (ApiError ''ALL_ENDPOINTS_403'' 403 (last bs)),
                 final_store =
                   (if includesText (hd bs) ''The caller does not have permission'' then store
                    else disableAccount store (cookie_id acc))\<rparr>"
    by (simp add: generateResponse_Some currentFirstError403Type_def)
qed

theorem endpoint_rotation_on_403_witness:
  "accountExists demoStore2 (cookie_id demoShared) \<and>
   generateResponse demoOrchestrator (Some demoShared) [] 0 0 None demoStore2
       [Response 403 demoPermissionBody [], Response 403 ''Forbidden'' []]
     = \<lparr>events = [ErrorEvent ''ALL_ENDPOINTS_403'' (Some ''Forbidden'')],
        attempts = [(''s1'', 0), (''s1'', 1)],
        outcome = Thrown (ApiError ''ALL_ENDPOINTS_403'' 403 ''Forbidden''),
        final_store = demoStore2\<rparr> \<and>
   generateResponse demoOrchestrator (Some demoShared) [] 0 0 None demoStore2
       [Response 403 ''Forbidden'' [], Response 403 demoPermissionBody []]
     = \<lparr>events = [ErrorEvent ''ALL_ENDPOINTS_403'' (Some demoPermissionBody)],
        attempts = [(''s1'', 0), (''s1'', 1)],
        outcome = Thrown (ApiError ''ALL_ENDPOINTS_403'' 403 demoPermissionBody),
        final_store = disableAccount demoStore2 ''s1''\<rparr>"
proof -
  note th = endpoint_rotation_on_403 [OF demo_shared_exists, of demoOrchestrator "[]" 0,
      THEN conjunct2, rule_format]
  have up: "[0 ..< 2] = [0, Suc 0]" by (simp add: upt_rec)
  have 1: "generateResponse demoOrchestrator (Some demoShared) [] 0 0 None demoStore2
       [Response 403 demoPermissionBody [], Response 403 ''Forbidden'' []]
     = \<lparr>events = [ErrorEvent ''ALL_ENDPOINTS_403'' (Some ''Forbidden'')],
        attempts = [(''s1'', 0), (''s1'', 1)],
        outcome = Thrown (ApiError ''ALL_ENDPOINTS_403'' 403 ''Forbidden''),
        final_store = demoStore2\<rparr>"
    using th [of "[demoPermissionBody, ''Forbidden'']" "[]"] includes_permission up
    by (simp add: demo_endpoints demoShared_def)
  have 2: "generateResponse demoOrchestrator (Some demoShared) [] 0 0 None demoStore2
       [Response 403 ''Forbidden'' [], Response 403 demoPermissionBody []]
     = \<lparr>events = [ErrorEvent ''ALL_ENDPOINTS_403'' (Some demoPermissionBody)],
        attempts = [(''s1'', 0), (''s1'', 1)],
        outcome = Thrown (ApiError ''ALL_ENDPOINTS_403'' 403 demoPermissionBody),
        final_store = disableAccount demoStore2 ''s1''\<rparr>"
    using th [of "[''Forbidden'', demoPermissionBody]" "[]"] not_includes_permission up
    by (simp add: demo_endpoints demoShared_def)
  from 1 2 demo_shared_exists show ?thesis by simp
qed

text \<open>
  Claim C1 as stated speaks of the first 403 of the logical request. The record of the
  first 403 and the endpoint index restart when the request moves to another account:
  below, the first 403 of the request carries the permission-denied body, a 429 then
  replaces the account, and the replacement is disabled after its own 403 responses.
  The \<^verbatim>\<open>ApiError\<close> is caught by the handler of the quota retry, which reports
  \<^verbatim>\<open>RESOURCE_EXHAUSTED\<close> after it and returns.
\<close>

theorem first_403_of_request_counterexample:
  "includesText demoPermissionBody ''The caller does not have permission'' \<and>
   generateResponse demoOrchestrator (Some demoDedicated) [] 0 0 None demoStore2
       [Response 403 demoPermissionBody [], Response 429 [] [],
        Response 403 ''Forbidden'' [], Response 403 ''Forbidden'' []]
     = \<lparr>events = [ErrorEvent ''ALL_ENDPOINTS_403'' (Some ''Forbidden''),
                  ErrorEvent ''RESOURCE_EXHAUSTED'' None],
        attempts = [(''d2'', 0), (''d2'', 1), (''s1'', 0), (''s1'', 1)],
        outcome = Returned,
        final_store = [demoDedicated, demoShared\<lparr>status := 0\<rparr>]\<rparr>"
proof -
  let ?tail = "attempt demoOrchestrator Chat demoShared ([] @ [cookie_id demoDedicated]) (0 + 1) 0 None
      demoStore2 (map (\<lambda>b. Response 403 b []) [''Forbidden'', ''Forbidden''] @ [])"
  have up: "[0 ..< 2] = [0, Suc 0]" by (simp add: upt_rec)
  have tail: "?tail = \<lparr>events = [ErrorEvent ''ALL_ENDPOINTS_403'' (Some ''Forbidden'')],
        attempts = [(''s1'', 0), (''s1'', 1)],
        outcome = Thrown (ApiError ''ALL_ENDPOINTS_403'' 403 ''Forbidden''),
        final_store = disableAccount demoStore2 ''s1''\<rparr>"
    using rotation [OF demo_shared_exists, of "[''Forbidden'', ''Forbidden'']" 0 demoOrchestrator Chat
        "[] @ [cookie_id demoDedicated]" "0 + 1" None "[]"] up
    by (simp add: demo_endpoints demoShared_def currentFirstError403Type_def)
  have cls: "\<not> (200 \<le> (429::nat) \<and> (429::nat) \<le> 299)" "(429::nat) \<noteq> 403" "(429::nat) \<noteq> 400"
    "(429::nat) = 429 \<or> quotaMarked []" by simp_all
  have lt: "(0::nat) < MAX_RETRY_COUNT Chat" by (simp add: MAX_RETRY_COUNT_def)
  have second: "attempt demoOrchestrator Chat demoDedicated [] 0 (0 + 1)
        (Some (currentFirstError403Type None demoPermissionBody)) demoStore2
        (Response 429 [] [] # map (\<lambda>b. Response 403 b []) [''Forbidden'', ''Forbidden''] @ [])
      = (afterQuotaRetry Chat ?tail)\<lparr>attempts := (''d2'', 1) # attempts ?tail\<rparr>"
    using attempt_quota_retry [OF demo_endpoints(1) cls lt demo_select_shared,
        of 1 "Some (currentFirstError403Type None demoPermissionBody)"
           "[]" "map (\<lambda>b. Response 403 b []) [''Forbidden'', ''Forbidden''] @ []"]
    by (simp add: demo_endpoints demoDedicated_def)
  have first: "attempt demoOrchestrator Chat demoDedicated [] 0 0 None demoStore2
        (Response 403 demoPermissionBody [] # Response 429 [] []
           # map (\<lambda>b. Response 403 b []) [''Forbidden'', ''Forbidden''] @ [])
      = (afterQuotaRetry Chat ?tail)\<lparr>attempts := (''d2'', 0) # (''d2'', 1) # attempts ?tail\<rparr>"
    using attempt_403_next [of 0 demoOrchestrator Chat demoDedicated "[]" 0 None demoStore2
        demoPermissionBody "[]"
        "Response 429 [] [] # map (\<lambda>b. Response 403 b []) [''Forbidden'', ''Forbidden''] @ []"]
      second
    by (simp add: demo_endpoints demoDedicated_def)
  have "generateResponse demoOrchestrator (Some demoDedicated) [] 0 0 None demoStore2
       [Response 403 demoPermissionBody [], Response 429 [] [],
        Response 403 ''Forbidden'' [], Response 403 ''Forbidden'' []]
     = \<lparr>events = [ErrorEvent ''ALL_ENDPOINTS_403'' (Some ''Forbidden''),
                  ErrorEvent ''RESOURCE_EXHAUSTED'' None],
        attempts = [(''d2'', 0), (''d2'', 1), (''s1'', 0), (''s1'', 1)],
        outcome = Returned,
        final_store = [demoDedicated, demoShared\<lparr>status := 0\<rparr>]\<rparr>"
    using first unfolding tail
    by (simp add: generateResponse_Some afterQuotaRetry_def disableAccount_def demoStore2_def
        demoDedicated_def demoShared_def)
  with includes_permission show ?thesis by simp
qed

lemma quotaStop_Chat:
  "quotaStop Chat st = \<lparr>events = [ErrorEvent ''RESOURCE_EXHAUSTED'' None], attempts = [],
                         outcome = Returned, final_store = st\<rparr>"
  by (simp add: quotaStop_def stop_def)

lemma quotaStop_Image:
  "quotaStop Image st = \<lparr>events = [], attempts = [],
                          outcome = Thrown (ApiError ''RESOURCE_EXHAUSTED'' 429 ''RESOURCE_EXHAUSTED''),
                          final_store = st\<rparr>"
  by (simp add: quotaStop_def stop_def)

text \<open>
  Claim C2, as the code has it. The branch is reached by a response that is not a
  success and whose status is neither 403 nor 400 (those are classified first), and that
  has status 429 or a body with a quota marker. With the retry count at the ceiling
  (5 for chat, 3 for images) the call stops with \<^verbatim>\<open>RESOURCE_EXHAUSTED\<close>: an error event
  and a normal return for chat, an \<^verbatim>\<open>ApiError\<close> for images. Below the ceiling it selects
  again with the current account added to the exclusion list; without another account
  it stops the same way, and with one it calls itself with that account, the longer
  exclusion list and the retry count plus one, on endpoint 0 with no first 403.
  A request answered by 429 only makes at most ceiling + 1 attempts.
\<close>

theorem quota_retry_ceiling:
  assumes "totalEndpoints env \<noteq> 0"
    and "\<not> (200 \<le> st \<and> st \<le> 299)" and "st \<noteq> 403" and "st \<noteq> 400"
    and "st = 429 \<or> quotaMarked body"
  shows "MAX_RETRY_COUNT Chat = 5 \<and> MAX_RETRY_COUNT Image = 3 \<and>
    (retryCount \<ge> MAX_RETRY_COUNT k \<longrightarrow>
       generate env k (Some acc) excl retryCount endpointIndex f store (Response st body records # rest)
         = (quotaStop k store)\<lparr>attempts := [(cookie_id acc, min endpointIndex (totalEndpoints env - 1))]\<rparr>) \<and>
    (\<forall>e store'. retryCount < MAX_RETRY_COUNT k \<and>
         selectAccount env store (excl @ [cookie_id acc]) = (Inl e, store') \<longrightarrow>
       generate env k (Some acc) excl retryCount endpointIndex f store (Response st body records # rest)
         = (quotaStop k store')\<lparr>attempts := [(cookie_id acc, min endpointIndex (totalEndpoints env - 1))]\<rparr>) \<and>
    (\<forall>newAccount store'. retryCount < MAX_RETRY_COUNT k \<and>
         selectAccount env store (excl @ [cookie_id acc]) = (Inr newAccount, store') \<longrightarrow>
       generate env k (Some acc) excl retryCount endpointIndex f store (Response st body records # rest)
         = (afterQuotaRetry k
              (generate env k (Some newAccount) (excl @ [cookie_id acc]) (retryCount + 1) 0 None store' rest))
           \<lparr>attempts := (cookie_id acc, min endpointIndex (totalEndpoints env - 1))
               # attempts (generate env k (Some newAccount) (excl @ [cookie_id acc])
                            (retryCount + 1) 0 None store' rest)\<rparr>) \<and>
    (\<forall>st'. quotaStop Chat st' = \<lparr>events = [ErrorEvent ''RESOURCE_EXHAUSTED'' None], attempts = [],
                                   outcome = Returned, final_store = st'\<rparr> \<and>
            quotaStop Image st' = \<lparr>events = [], attempts = [],
                                    outcome = Thrown (ApiError ''RESOURCE_EXHAUSTED'' 429 ''RESOURCE_EXHAUSTED''),
                                    final_store = st'\<rparr>) \<and>
    (\<forall>responses. (\<forall>r \<in> set responses. \<exists>b rs. r = Response 429 b rs) \<longrightarrow>
       length (attempts (generate env k (Some acc) excl retryCount endpointIndex f store responses))
         \<le> Suc (MAX_RETRY_COUNT k - retryCount))"
proof -
  have g: "generate env k (Some a) x r i y s rs = attempt env k a x r i y s rs" for a x r i y s rs
    by (simp add: generate_def)
  show ?thesis
    unfolding g
    using attempt_quota_ceiling [OF assms] attempt_quota_no_account [OF assms]
      attempt_quota_retry [OF assms] retry_bound [OF assms(1)] quotaStop_Chat quotaStop_Image
    by (simp add: MAX_RETRY_COUNT_def)
qed

lemma demo_dedicated_text: "processRecords demoBuiltins [([textPart ''hi''], True)] [] = [Text (Str ''hi'')]"
  by (simp add: processRecord_def processPart_def textPart_def trim_def is_space_def)

theorem quota_retry_ceiling_witness:
  "totalEndpoints demoOrchestrator \<noteq> 0 \<and>
   \<not> (200 \<le> (429::nat) \<and> (429::nat) \<le> 299) \<and> (429::nat) \<noteq> 403 \<and> (429::nat) \<noteq> 400 \<and>
   generateResponse demoOrchestrator (Some demoDedicated) [] 5 0 None demoStore2
       [Response 429 [] [], Response 200 [] [([textPart ''hi''], True)]]
     = \<lparr>events = [ErrorEvent ''RESOURCE_EXHAUSTED'' None], attempts = [(''d2'', 0)],
        outcome = Returned, final_store = demoStore2\<rparr> \<and>
   generateImage demoOrchestrator (Some demoDedicated) [] 3 0 None demoStore2
       [Response 429 [] [], Response 200 [] []]
     = \<lparr>events = [], attempts = [(''d2'', 0)],
        outcome = Thrown (ApiError ''RESOURCE_EXHAUSTED'' 429 ''RESOURCE_EXHAUSTED''),
        final_store = demoStore2\<rparr> \<and>
   generateResponse demoOrchestrator (Some demoDedicated) [] 4 0 None demoStore2
       [Response 429 [] [], Response 200 [] [([textPart ''hi''], True)]]
     = \<lparr>events = [Text (Str ''hi'')], attempts = [(''d2'', 0), (''s1'', 0)],
        outcome = Returned, final_store = demoStore2\<rparr>"
proof -
  have cls: "\<not> (200 \<le> (429::nat) \<and> (429::nat) \<le> 299)" "(429::nat) \<noteq> 403" "(429::nat) \<noteq> 400"
    "(429::nat) = 429 \<or> quotaMarked []" by simp_all
  note th = quota_retry_ceiling [OF demo_endpoints(1) cls]
  have 1: "generateResponse demoOrchestrator (Some demoDedicated) [] 5 0 None demoStore2
       [Response 429 [] [], Response 200 [] [([textPart ''hi''], True)]]
     = \<lparr>events = [ErrorEvent ''RESOURCE_EXHAUSTED'' None], attempts = [(''d2'', 0)],
        outcome = Returned, final_store = demoStore2\<rparr>"
    using th [where retryCount = 5 and k = Chat and acc = demoDedicated and excl = "[]"
        and endpointIndex = 0 and f = None and store = demoStore2 and records = "[]"
        and rest = "[Response 200 [] [([textPart ''hi''], True)]]"]
    by (simp add: generateResponse_def demoDedicated_def)
  have 2: "generateImage demoOrchestrator (Some demoDedicated) [] 3 0 None demoStore2
       [Response 429 [] [], Response 200 [] []]
     = \<lparr>events = [], attempts = [(''d2'', 0)],
        outcome = Thrown (ApiError ''RESOURCE_EXHAUSTED'' 429 ''RESOURCE_EXHAUSTED''),
        final_store = demoStore2\<rparr>"
    using th [where retryCount = 3 and k = Image and acc = demoDedicated and excl = "[]"
        and endpointIndex = 0 and f = None and store = demoStore2 and records = "[]"
        and rest = "[Response 200 [] []]"]
    by (simp add: generateImage_def demoDedicated_def)
  have ok: "generate demoOrchestrator Chat (Some demoShared) [''d2''] 5 0 None
        demoStore2 [Response 200 [] [([textPart ''hi''], True)]]
      = \<lparr>events = [Text (Str ''hi'')], attempts = [(''s1'', 0)], outcome = Returned,
         final_store = demoStore2\<rparr>"
    using attempt_ok [OF demo_endpoints(1), of 200 Chat demoShared "[''d2'']"
        5 0 None demoStore2 "[]" "[([textPart ''hi''], True)]" "[]"] demo_dedicated_text
    by (simp add: generate_def stop_def demoOrchestrator_def demoShared_def)
  have 3: "generateResponse demoOrchestrator (Some demoDedicated) [] 4 0 None demoStore2
       [Response 429 [] [], Response 200 [] [([textPart ''hi''], True)]]
     = \<lparr>events = [Text (Str ''hi'')], attempts = [(''d2'', 0), (''s1'', 0)],
        outcome = Returned, final_store = demoStore2\<rparr>"
    using th [where retryCount = 4 and k = Chat and acc = demoDedicated and excl = "[]"
        and endpointIndex = 0 and f = None and store = demoStore2 and records = "[]"
        and rest = "[Response 200 [] [([textPart ''hi''], True)]]"] demo_select_shared
    by (simp add: ok generateResponse_def afterQuotaRetry_def demoDedicated_def)
  from 1 2 3 demo_endpoints(1) show ?thesis by simp
qed

text \<open>
  Claim C2 as stated covers every body with a quota marker. With status 400 such a body
  is handled by the branch for 400: it has no ceiling and starts the retry count again
  from 0. Below, the retry count is already 5, the response is a 400 whose body mentions
  the quota, and the request goes on with another account and succeeds.
\<close>

theorem quota_marked_400_counterexample:
  "quotaMarked ''quota exceeded'' \<and> 5 \<ge> MAX_RETRY_COUNT Chat \<and>
   generateResponse demoOrchestrator (Some demoDedicated) [] 5 0 None demoStore2
       [Response 400 ''quota exceeded'' [], Response 200 [] [([textPart ''hi''], True)]]
     = \<lparr>events = [Text (Str ''hi'')], attempts = [(''d2'', 0), (''s1'', 0)],
        outcome = Returned, final_store = demoStore2\<rparr>"
proof -
  have q: "quotaMarked ''quota exceeded''" by (simp add: quotaMarked_def)
  have ok: "attempt demoOrchestrator Chat demoShared ([] @ [cookie_id demoDedicated]) 0 0 None
        demoStore2 [Response 200 [] [([textPart ''hi''], True)]]
      = \<lparr>events = [Text (Str ''hi'')], attempts = [(''s1'', 0)], outcome = Returned,
         final_store = demoStore2\<rparr>"
    using attempt_ok [OF demo_endpoints(1), of 200 Chat demoShared "[] @ [cookie_id demoDedicated]"
        0 0 None demoStore2 "[]" "[([textPart ''hi''], True)]" "[]"] demo_dedicated_text
    by (simp add: stop_def demoOrchestrator_def demoShared_def)
  have "generateResponse demoOrchestrator (Some demoDedicated) [] 5 0 None demoStore2
       [Response 400 ''quota exceeded'' [], Response 200 [] [([textPart ''hi''], True)]]
     = \<lparr>events = [Text (Str ''hi'')], attempts = [(''d2'', 0), (''s1'', 0)],
        outcome = Returned, final_store = demoStore2\<rparr>"
    using attempt_400_quota [OF demo_endpoints(1) q demo_select_shared, of Chat 5 0 None "[]"
        "[Response 200 [] [([textPart ''hi''], True)]]"]
    unfolding ok
    by (simp add: generateResponse_Some afterQuotaRetry_def demoDedicated_def demoOrchestrator_def)
  with q show ?thesis by (simp add: MAX_RETRY_COUNT_def)
qed
lemma poolCeiling_nonneg: "0 \<le> poolCeiling accounts uid"
  by (simp add: poolCeiling_def)







lemma raisePools_in_bounds:
  "(\<forall>p \<in> set pools. quotaInBounds p) \<Longrightarrow>
   (\<forall>(m, fr) \<in> set models. case fr of None \<Rightarrow> True | Some q \<Rightarrow> 0 \<le> q \<and> q \<le> 1) \<Longrightarrow>
   (\<forall>p \<in> set (raisePools pools uid models). quotaInBounds p)"
proof (induction models arbitrary: pools)
  case Nil
  then show ?case by simp
next
  case (Cons x models)
  obtain m fr where x: "x = (m, fr)" by (cases x)
  let ?q = "case fr of None \<Rightarrow> 1 | Some q \<Rightarrow> q"
  from Cons.prems(2) x have q: "0 \<le> ?q \<and> ?q \<le> 1"
    by (cases fr) auto
  have "\<forall>p \<in> set (addUserSharedQuota pools uid m ?q). quotaInBounds p"
    using Cons.prems(1) q
    by (auto simp: addUserSharedQuota_def quotaInBounds_def newPoolRow_def split: if_splits)
  moreover from Cons.prems(2) have
    "\<forall>(m, fr) \<in> set models. case fr of None \<Rightarrow> True | Some q \<Rightarrow> 0 \<le> q \<and> q \<le> 1"
    by simp
  ultimately show ?case
    using Cons.IH [of "addUserSharedQuota pools uid m ?q"] x by simp
qed

text \<open>
  Claim C6, as far as it holds. The pool operations are those of the absent quota
  service as the spec words them; the account operations are the code's. Every operation
  on a pool leaves \<open>0 \<le> quota \<le> max_quota\<close> in place: a new row, a debit, a recovery
  pass, and the addition of a shared credential whose remaining fractions lie in
  \<open>[0, 1]\<close>. After a recovery pass the ceiling of every pool is twice the number of its
  user's enabled shared credentials. Disabling a credential does not touch the pools, so
  until the next recovery pass the ceiling stays where it was.
\<close>

theorem pool_quota_in_bounds:
  "quotaInBounds (newPoolRow uid model_name) \<and>
   ((\<forall>p \<in> set pools. quotaInBounds p) \<longrightarrow>
      (\<forall>p \<in> set (recordConsumption pools uid model_name before after shared). quotaInBounds p)) \<and>
   ((\<forall>p \<in> set pools. 0 \<le> quota p) \<longrightarrow>
      (\<forall>p \<in> set (fst (recoverAll accounts pools)). quotaInBounds p \<and> ceilingInSync accounts p)) \<and>
   ((\<forall>p \<in> set pools. quotaInBounds p) \<and> 0 \<le> accountQuota \<and> accountQuota \<le> 1 \<longrightarrow>
      (\<forall>p \<in> set (addUserSharedQuota pools uid model_name accountQuota). quotaInBounds p)) \<and>
   ((\<forall>p \<in> set pools. quotaInBounds p) \<and>
    (\<forall>(m, fr) \<in> set mergedModels. case fr of None \<Rightarrow> True | Some q \<Rightarrow> 0 \<le> q \<and> q \<le> 1) \<longrightarrow>
      (\<forall>p \<in> set (snd (handleCallback accounts pools a mergedModels)). quotaInBounds p))"
proof (intro conjI impI)
  show "quotaInBounds (newPoolRow uid model_name)"
    by (simp add: quotaInBounds_def newPoolRow_def)
  show "\<forall>p \<in> set (recordConsumption pools uid model_name before after shared). quotaInBounds p"
    if "\<forall>p \<in> set pools. quotaInBounds p"
    using that by (auto simp: recordConsumption_def quotaInBounds_def)
  show "\<forall>p \<in> set (fst (recoverAll accounts pools)). quotaInBounds p \<and> ceilingInSync accounts p"
    if "\<forall>p \<in> set pools. 0 \<le> quota p"
  proof
    fix p assume "p \<in> set (fst (recoverAll accounts pools))"
    then obtain q where q: "q \<in> set pools" and p: "p = recoverRow accounts q"
      by (auto simp: recoverAll_def)
    from that q have "0 \<le> quota q" by blast
    with poolCeiling_nonneg [of accounts "pool_user q"]
    have "0 \<le> min (quota q + poolCeiling accounts (pool_user q) * 0.2) (poolCeiling accounts (pool_user q))"
      by simp
    then show "quotaInBounds p \<and> ceilingInSync accounts p"
      unfolding p
      by (simp add: quotaInBounds_def ceilingInSync_def recoverRow_def Let_def poolCeiling_def)
  qed
  show "\<forall>p \<in> set (addUserSharedQuota pools uid model_name accountQuota). quotaInBounds p"
    if "(\<forall>p \<in> set pools. quotaInBounds p) \<and> 0 \<le> accountQuota \<and> accountQuota \<le> 1"
    using that
    by (auto simp: addUserSharedQuota_def quotaInBounds_def newPoolRow_def split: if_splits)
  show "\<forall>p \<in> set (snd (handleCallback accounts pools a mergedModels)). quotaInBounds p"
    if "(\<forall>p \<in> set pools. quotaInBounds p) \<and>
        (\<forall>(m, fr) \<in> set mergedModels. case fr of None \<Rightarrow> True | Some q \<Rightarrow> 0 \<le> q \<and> q \<le> 1)"
  proof (cases "is_shared a = 1")
    case True
    with that raisePools_in_bounds [of pools mergedModels "user_id a"] show ?thesis
      by (simp add: handleCallback_def)
  next
    case False
    with that show ?thesis by (simp add: handleCallback_def)
  qed
qed

lemma demo_callback:
  "handleCallback [] [] demoShared [(''m'', Some (1 / 2))] = ([demoShared], [demoPoolOne])"
  by (simp add: handleCallback_def createAccount_def addUserSharedQuota_def newPoolRow_def
      demoShared_def demoPoolOne_def)

theorem pool_quota_in_bounds_witness:
  "handleCallback [] [] demoShared [(''m'', Some (1 / 2))] = ([demoShared], [demoPoolOne]) \<and>
   quotaInBounds demoPoolOne \<and> ceilingInSync [demoShared] demoPoolOne \<and>
   recordConsumption [demoPoolOne] ''u2'' ''m'' (85 / 100) (35 / 100) 1 = [demoPoolOne\<lparr>quota := 1 / 2\<rparr>] \<and>
   quotaInBounds (demoPoolOne\<lparr>quota := 1 / 2\<rparr>) \<and>
   fst (recoverAll [demoShared] [demoPoolOne\<lparr>quota := 1 / 2\<rparr>]) = [demoPoolOne\<lparr>quota := 9 / 10\<rparr>] \<and>
   quotaInBounds (demoPoolOne\<lparr>quota := 9 / 10\<rparr>) \<and>
   ceilingInSync [demoShared] (demoPoolOne\<lparr>quota := 9 / 10\<rparr>)"
proof -
  have models: "\<forall>(m, fr) \<in> set [(''m'', Some (1 / 2 :: real))].
      case fr of None \<Rightarrow> True | Some q \<Rightarrow> 0 \<le> q \<and> q \<le> 1"
    by simp
  have empty: "\<forall>p \<in> set ([] :: pool_row list). quotaInBounds p" by simp
  note th1 = pool_quota_in_bounds [where pools = "[]" and accounts = "[]" and a = demoShared
      and mergedModels = "[(''m'', Some (1 / 2))]"]
  from th1 empty models
  have "\<forall>p \<in> set (snd (handleCallback [] [] demoShared [(''m'', Some (1 / 2))])). quotaInBounds p"
    by blast
  then have b1: "quotaInBounds demoPoolOne" unfolding demo_callback by simp
  have debit: "recordConsumption [demoPoolOne] ''u2'' ''m'' (85 / 100) (35 / 100) 1
      = [demoPoolOne\<lparr>quota := 1 / 2\<rparr>]"
    by (simp add: recordConsumption_def demoPoolOne_def)
  note th2 = pool_quota_in_bounds [where pools = "[demoPoolOne]" and uid = "''u2''"
      and model_name = "''m''" and before = "85 / 100" and after = "35 / 100" and shared = 1]
  from th2 b1
  have "\<forall>p \<in> set (recordConsumption [demoPoolOne] ''u2'' ''m'' (85 / 100) (35 / 100) 1). quotaInBounds p"
    by simp
  then have b2: "quotaInBounds (demoPoolOne\<lparr>quota := 1 / 2\<rparr>)" unfolding debit by simp
  have rec: "fst (recoverAll [demoShared] [demoPoolOne\<lparr>quota := 1 / 2\<rparr>]) = [demoPoolOne\<lparr>quota := 9 / 10\<rparr>]"
    by (simp add: recoverAll_def recoverRow_def poolCeiling_def enabledSharedCount_def Let_def
        demoShared_def demoPoolOne_def)
  note th3 = pool_quota_in_bounds [where pools = "[demoPoolOne\<lparr>quota := 1 / 2\<rparr>]"
      and accounts = "[demoShared]"]
  have "\<forall>p \<in> set [demoPoolOne\<lparr>quota := 1 / 2\<rparr>]. 0 \<le> quota p" by simp
  with th3 have "\<forall>p \<in> set (fst (recoverAll [demoShared] [demoPoolOne\<lparr>quota := 1 / 2\<rparr>])).
      quotaInBounds p \<and> ceilingInSync [demoShared] p"
    by blast
  then have b3: "quotaInBounds (demoPoolOne\<lparr>quota := 9 / 10\<rparr>)"
      "ceilingInSync [demoShared] (demoPoolOne\<lparr>quota := 9 / 10\<rparr>)"
    unfolding rec by simp_all
  have sync: "ceilingInSync [demoShared] demoPoolOne"
    by (simp add: ceilingInSync_def enabledSharedCount_def demoShared_def demoPoolOne_def)
  from demo_callback b1 sync debit b2 rec b3 show ?thesis by simp
qed

text \<open>
  Claim C6 as stated makes \<open>max_quota = 2 \<times> N\<close> hold at all times. It holds for the pool
  of user \<^verbatim>\<open>u2\<close> after the user's only shared account was added; the orchestrator then
  disables the account (a 400 or an exhausted 403 rotation does so through
  \<^verbatim>\<open>updateAccountStatus\<close>), which writes to the account table only: the user has no
  enabled shared credential left and the ceiling is still 2.
\<close>

theorem ceiling_after_disable_counterexample:
  "ceilingInSync [demoShared] demoPoolOne \<and>
   updateAccountStatus [demoShared] ''s1'' 0 = Inr [demoShared\<lparr>status := 0\<rparr>] \<and>
   enabledSharedCount [demoShared\<lparr>status := 0\<rparr>] (pool_user demoPoolOne) = 0 \<and>
   max_quota demoPoolOne = 2 \<and>
   \<not> ceilingInSync [demoShared\<lparr>status := 0\<rparr>] demoPoolOne"
  by (simp add: ceilingInSync_def enabledSharedCount_def updateAccountStatus_def accountExists_def
      demoShared_def demoPoolOne_def)

end
